theory Spec2Isabelle
  imports
    Main
    "HOL-Library.Multiset"
    "HOL-Library.Char_ord"
    "HOL-Library.List_Lexorder"
    "HOL-Library.Product_Lexorder"
    "HOL-Library.Option_ord"
begin

section \<open>Rancher Auto Certs: reconciliation and renewal (app/main.py)\<close>

text \<open>
  A shallow embedding of \<^verbatim>\<open>app/main.py\<close>. Python strings are \<open>string\<close> (characters
  in the range 0..255, compared by code point as Python compares \<open>str\<close>), Python's
  unbounded integers are \<open>int\<close>, exceptions are values of the type \<open>error\<close> returned on
  the left of a sum, and everything outside the process (files, the \<^verbatim>\<open>openssl\<close> binary,
  HTTP, the ACME client, the clock, uuid4, datadog) is an explicit world state together
  with an environment record of oracles whose answers the program cannot choose.
  Calls of the logger are left out: they neither change the control flow nor any value
  the program computes.
\<close>

subsection \<open>Data model\<close>

text \<open>One entry of \<^verbatim>\<open>config["certs"]\<close>: \<^verbatim>\<open>{name, domains}\<close>.\<close>

record cert_config =
  name :: string
  domains :: "string list"

text \<open>
  The parsed \<^verbatim>\<open>config/config.yml\<close>. The keys \<^verbatim>\<open>ca\<close>, \<^verbatim>\<open>ca_directory\<close> and \<^verbatim>\<open>chain\<close> are
  optional in the file (the code tests \<^verbatim>\<open>"ca" in config\<close>), so they are options here.
\<close>

record config =
  ca :: "string option"
  ca_directory :: "string option"
  chain :: "string option"
  key_length :: int
  account_key :: string
  acme_dir :: string
  certs :: "cert_config list"

text \<open>
  One element of the \<^verbatim>\<open>data\<close> array returned by \<^verbatim>\<open>GET /certificates\<close>;
  \<open>links_self\<close> is \<^verbatim>\<open>cert["links"]["self"]\<close>.
\<close>

record rancher_cert =
  rc_name :: string
  subjectAlternativeNames :: "string list"
  expiresAt :: string
  links_self :: string

text \<open>
  The tuples \<^verbatim>\<open>(remaining_days, name, domains, link)\<close> of \<^verbatim>\<open>to_do\<close>. Python compares
  tuples lexicographically, component by component; so does the order on products of
  \<open>Product_Lexorder\<close>, with lists ordered lexicographically by \<open>List_Lexorder\<close>.
\<close>

type_synonym work_item = "int \<times> string \<times> string list \<times> string option"

text \<open>
  The exceptions the program raises or lets through; \<open>External\<close> is any other exception
  class raised inside a library (class name and message).
\<close>

datatype error =
    Exception string
  | IOError string
  | FileNotFoundError string
  | KeyError string
  | ValueError string
  | External string string

subsection \<open>Pure helpers\<close>

text \<open>\<^verbatim>\<open>contains_sublist(lst, sublst)\<close>, lines 131-135.\<close>

fun contains_sublist :: "'a list \<Rightarrow> 'a list \<Rightarrow> bool" where
  "contains_sublist lst [] = True"
| "contains_sublist lst (e # sublst) =
     (if e \<notin> set lst then False else contains_sublist lst sublst)"

text \<open>
  \<^verbatim>\<open>str.strip()\<close>: the characters Python's \<^verbatim>\<open>str.isspace\<close> accepts among the code
  points below 256 are removed from both ends.
\<close>

definition isspace :: "char \<Rightarrow> bool" where
  "isspace c = (of_char c \<in> {9, 10, 11, 12, 13, 28, 29, 30, 31, 32, 133, 160 :: nat})"

definition strip :: "string \<Rightarrow> string" where
  "strip s = rev (dropWhile isspace (rev (dropWhile isspace s)))"

text \<open>\<^verbatim>\<open>sep.join(xs)\<close>.\<close>

fun join :: "string \<Rightarrow> string list \<Rightarrow> string" where
  "join sep [] = []"
| "join sep [x] = x"
| "join sep (x # y # ys) = x @ sep @ join sep (y # ys)"

text \<open>\<^verbatim>\<open>str(n)\<close> for an integer: decimal digits, with a leading minus sign.\<close>

fun str_nat :: "nat \<Rightarrow> string" where
  "str_nat n =
     (if n < 10 then [char_of (48 + n)]
      else str_nat (n div 10) @ [char_of (48 + n mod 10)])"

declare str_nat.simps [simp del]

definition str_int :: "int \<Rightarrow> string" where
  "str_int i = (if i < 0 then CHR ''-'' # str_nat (nat (- i)) else str_nat (nat i))"

subsection \<open>The world outside the process\<close>

text \<open>
  What the program does to the outside is recorded as a trace of events, in the order
  the calls are made. The HTTP headers are the same constant in every call and are left
  out; a JSON payload is the association list of the dictionary that is dumped. An
  \<open>Openssl\<close> event holds the arguments of the subprocess and, for each argument, the
  contents of the file of that name at the moment of the call (\<open>None\<close> when there is no
  such file): what the subprocess is given to work on.
\<close>

datatype tiny_kwargs = CA string | Directory_url string

datatype event =
    Requests_get string "string \<times> string"
  | Requests_post string "(string \<times> string) list" "string \<times> string"
  | Requests_put string "(string \<times> string) list" "string \<times> string"
  | Openssl "string list" "string option list"
  | Acme_get_crt string string string tiny_kwargs
  | Datadog_initialize string int
  | Statsd_event string string string
  | Statsd_service_check string nat
  | Time_sleep int

record world =
  files :: "string \<rightharpoonup> string"
  trace :: "event list"
  uuids_drawn :: nat

record response =
  status_code :: int
  resp_text :: string
  json_data :: "rancher_cert list"

record completed =
  returncode :: int
  stdout :: string
  stderr :: string
  files_after :: "string \<rightharpoonup> string"

text \<open>
  The answers of the outside world. The program has no influence on them, so they are
  parameters of the model: the process environment, the uuids drawn, what the
  \<^verbatim>\<open>openssl\<close> binary does to the file system and how it exits, what the ACME client
  \<^verbatim>\<open>libs.acme_tiny\<close> returns, the HTTP responses of Rancher, the clock (microseconds of
  the naive local time), and the library functions \<^verbatim>\<open>yaml.safe_load\<close>,
  \<^verbatim>\<open>datetime.strptime\<close> and \<^verbatim>\<open>int\<close>.
\<close>

record env =
  environ :: "string \<rightharpoonup> string"
  uuid4_hex :: "nat \<Rightarrow> string"
  openssl_proc :: "string list \<Rightarrow> world \<Rightarrow> completed"
  acme_tiny_get_crt ::
    "string \<Rightarrow> string \<Rightarrow> string \<Rightarrow> tiny_kwargs \<Rightarrow> world \<Rightarrow> (error + string) \<times> (string \<rightharpoonup> string)"
  requests_get :: "string \<Rightarrow> string \<times> string \<Rightarrow> world \<Rightarrow> error + response"
  requests_post ::
    "string \<Rightarrow> (string \<times> string) list \<Rightarrow> string \<times> string \<Rightarrow> world \<Rightarrow> error + response"
  requests_put ::
    "string \<Rightarrow> (string \<times> string) list \<Rightarrow> string \<times> string \<Rightarrow> world \<Rightarrow> error + response"
  datetime_now :: "world \<Rightarrow> int"
  yaml_safe_load :: "string \<Rightarrow> error + config"
  strptime :: "string \<Rightarrow> string \<Rightarrow> error + int"
  py_int :: "string \<Rightarrow> error + int"

text \<open>
  A statement of the program: it runs in a world and either returns a value or raises,
  and in both cases leaves a world behind.
\<close>

type_synonym 'a prog = "world \<Rightarrow> (error + 'a) \<times> world"

definition return :: "'a \<Rightarrow> 'a prog" where
  "return x w = (Inr x, w)"

definition raise :: "error \<Rightarrow> 'a prog" where
  "raise e w = (Inl e, w)"

definition bind :: "'a prog \<Rightarrow> ('a \<Rightarrow> 'b prog) \<Rightarrow> 'b prog" where
  "bind m f w = (case m w of (Inl e, w') \<Rightarrow> (Inl e, w') | (Inr x, w') \<Rightarrow> f x w')"

text \<open>\<^verbatim>\<open>try: body except Exception as e: handler(e)\<close>; every modelled error is an Exception.\<close>

definition try_except :: "'a prog \<Rightarrow> (error \<Rightarrow> 'a prog) \<Rightarrow> 'a prog" where
  "try_except body handler w =
     (case body w of (Inl e, w') \<Rightarrow> handler e w' | (Inr x, w') \<Rightarrow> (Inr x, w'))"

definition emit :: "event \<Rightarrow> unit prog" where
  "emit ev w = (Inr (), w\<lparr>trace := trace w @ [ev]\<rparr>)"

text \<open>A call whose answer is the outside world's; the call is in the trace already.\<close>

definition ask :: "(world \<Rightarrow> error + 'a) \<Rightarrow> 'a prog" where
  "ask f w = (f w, w)"

text \<open>\<^verbatim>\<open>os.environ[k]\<close>.\<close>

definition os_environ :: "env \<Rightarrow> string \<Rightarrow> string prog" where
  "os_environ env k = (case environ env k of None \<Rightarrow> raise (KeyError k) | Some v \<Rightarrow> return v)"

text \<open>\<^verbatim>\<open>uuid.uuid4().hex\<close>.\<close>

definition uuid4 :: "env \<Rightarrow> string prog" where
  "uuid4 env w = (Inr (uuid4_hex env (uuids_drawn w)), w\<lparr>uuids_drawn := Suc (uuids_drawn w)\<rparr>)"

text \<open>\<^verbatim>\<open>with open(path, "r") as f: f.read()\<close>.\<close>

definition open_read :: "string \<Rightarrow> string prog" where
  "open_read path w =
     (case files w path of None \<Rightarrow> (Inl (FileNotFoundError path), w) | Some s \<Rightarrow> (Inr s, w))"

text \<open>\<^verbatim>\<open>with open(path, "w") as f: f.write(s)\<close>.\<close>

definition open_write :: "string \<Rightarrow> string \<Rightarrow> unit prog" where
  "open_write path s w = (Inr (), w\<lparr>files := (files w)(path \<mapsto> s)\<rparr>)"

text \<open>\<^verbatim>\<open>os.remove(path)\<close>.\<close>

definition os_remove :: "string \<Rightarrow> unit prog" where
  "os_remove path w =
     (case files w path of
        None \<Rightarrow> (Inl (FileNotFoundError path), w)
      | Some s \<Rightarrow> (Inr (), w\<lparr>files := (files w)(path := None)\<rparr>))"

subsection \<open>Store client and crypto toolkit\<close>

text \<open>\<^verbatim>\<open>rancher_get_certs\<close>, lines 24-29.\<close>

definition rancher_get_certs :: "env \<Rightarrow> rancher_cert list prog" where
  "rancher_get_certs env =
     bind (os_environ env ''CATTLE_URL'') (\<lambda>url.
     bind (os_environ env ''CATTLE_ACCESS_KEY'') (\<lambda>access_key.
     bind (os_environ env ''CATTLE_SECRET_KEY'') (\<lambda>secret_key.
     bind (emit (Requests_get (url @ ''/certificates'') (access_key, secret_key))) (\<lambda>_.
     bind (ask (requests_get env (url @ ''/certificates'') (access_key, secret_key))) (\<lambda>r.
     if status_code r \<noteq> 200 then
       raise (Exception (''Rancher returned non-200 code: '' @ str_int (status_code r)
                          @ '' - '' @ resp_text r))
     else return (json_data r))))))"

text \<open>\<^verbatim>\<open>rancher_save_cert\<close>, lines 32-48.\<close>

definition rancher_save_cert ::
  "env \<Rightarrow> string \<Rightarrow> string \<Rightarrow> string \<Rightarrow> string option \<Rightarrow> unit prog" where
  "rancher_save_cert env nm private_key cert link =
     (let payload = [(''key'', private_key), (''cert'', cert)] in
      bind (case link of
              None \<Rightarrow>
                (let payload = payload @ [(''name'', nm)] in
                 bind (os_environ env ''CATTLE_URL'') (\<lambda>url.
                 bind (os_environ env ''CATTLE_ACCESS_KEY'') (\<lambda>access_key.
                 bind (os_environ env ''CATTLE_SECRET_KEY'') (\<lambda>secret_key.
                 bind (emit (Requests_post (url @ ''/certificates'') payload
                                (access_key, secret_key))) (\<lambda>_.
                 ask (requests_post env (url @ ''/certificates'') payload
                        (access_key, secret_key)))))))
            | Some l \<Rightarrow>
                 bind (os_environ env ''CATTLE_ACCESS_KEY'') (\<lambda>access_key.
                 bind (os_environ env ''CATTLE_SECRET_KEY'') (\<lambda>secret_key.
                 bind (emit (Requests_put l payload (access_key, secret_key))) (\<lambda>_.
                 ask (requests_put env l payload (access_key, secret_key)))))) (\<lambda>r.
      if status_code r \<notin> {200, 201} then
        raise (Exception (''Rancher returned non-200 code: '' @ str_int (status_code r)
                           @ '' - '' @ resp_text r))
      else return ()))"

text \<open>
  \<^verbatim>\<open>openssl(args)\<close>, lines 51-56: the process runs, changes the file system as it
  likes, and a non-zero exit status raises \<^verbatim>\<open>IOError\<close>.
\<close>

definition openssl :: "env \<Rightarrow> string list \<Rightarrow> string prog" where
  "openssl env args w =
     (let proc = openssl_proc env args w;
          w' = w\<lparr>files := files_after proc,
                 trace := trace w @ [Openssl args (map (files w) args)]\<rparr>
      in if returncode proc \<noteq> 0 then (Inl (IOError (''OpenSSL Error: '' @ stderr proc)), w')
         else (Inr (stdout proc), w'))"

text \<open>\<^verbatim>\<open>acme_tiny.get_crt(account_key, csr, acme_dir, log=logger, **tiny_kwargs)\<close>.\<close>

definition get_crt :: "env \<Rightarrow> string \<Rightarrow> string \<Rightarrow> string \<Rightarrow> tiny_kwargs \<Rightarrow> string prog" where
  "get_crt env acct csr dir kwargs w =
     (let (res, fs) = acme_tiny_get_crt env acct csr dir kwargs w
      in (res, w\<lparr>files := fs, trace := trace w @ [Acme_get_crt acct csr dir kwargs]\<rparr>))"

subsection \<open>Renewal orchestrator\<close>

text \<open>
  \<^verbatim>\<open>make_cert(config, logger, name, domains, link)\<close>, lines 59-106. The three
  \<^verbatim>\<open>os.remove\<close> calls are where the source has them: after the CSR request, after the
  CSR branch, and after the signing call.
\<close>

definition make_cert ::
  "env \<Rightarrow> config \<Rightarrow> string \<Rightarrow> string list \<Rightarrow> string option \<Rightarrow> unit prog" where
  "make_cert env config nm doms link =
     (if length doms < 1 then raise (Exception ''No domains for certificate'')
      else
        bind (uuid4 env) (\<lambda>u1. let private_key_file = ''/tmp/'' @ u1 in
        bind (uuid4 env) (\<lambda>u2. let csr_file = ''/tmp/'' @ u2 in
        bind (openssl env [''genrsa'', ''-out'', private_key_file,
                           str_int (key_length config)]) (\<lambda>_.
        bind (open_read private_key_file) (\<lambda>private_key.
        bind (if length doms = 1 then
                bind (openssl env [''req'', ''-new'', ''-sha256'', ''-key'', private_key_file,
                                   ''-out'', csr_file, ''-subj'', ''/CN='' @ doms ! 0])
                     (\<lambda>_. return ())
              else
                bind (uuid4 env) (\<lambda>u3. let csr_config_file = ''/tmp/'' @ u3 in
                bind (open_read ''/etc/ssl/openssl.cnf'') (\<lambda>openssl_config.
                let openssl_config = openssl_config
                      @ ''\<newline>[SAN]\<newline>subjectAltName=DNS:'' @ join '',DNS:'' doms
                      @ ''\<newline>'' in
                bind (open_write csr_config_file openssl_config) (\<lambda>_.
                bind (openssl env [''req'', ''-new'', ''-sha256'', ''-key'', private_key_file,
                                   ''-out'', csr_file, ''-subj'', ''/'', ''-reqexts'', ''SAN'',
                                   ''-config'', csr_config_file]) (\<lambda>_.
                os_remove csr_config_file))))) (\<lambda>_.
        bind (os_remove private_key_file) (\<lambda>_.
        bind (case ca config of
                Some c \<Rightarrow> return (CA c)
              | None \<Rightarrow>
                  (case ca_directory config of
                     Some d \<Rightarrow> return (Directory_url d)
                   | None \<Rightarrow> raise (KeyError ''ca_directory''))) (\<lambda>kwargs.
        bind (get_crt env (account_key config) csr_file (acme_dir config) kwargs) (\<lambda>cert.
        bind (os_remove csr_file) (\<lambda>_.
        rancher_save_cert env nm private_key cert link))))))))))"

subsection \<open>Config model\<close>

text \<open>The body of the loop of lines 123-126: name and domains are stripped.\<close>

definition strip_cert :: "cert_config \<Rightarrow> cert_config" where
  "strip_cert cert = cert\<lparr>name := strip (name cert), domains := map strip (domains cert)\<rparr>"

text \<open>\<^verbatim>\<open>load_config(logger)\<close>, lines 109-128.\<close>

definition load_config :: "env \<Rightarrow> config prog" where
  "load_config env =
     bind (open_read ''config/config.yml'') (\<lambda>f.
     bind (ask (\<lambda>w. yaml_safe_load env f)) (\<lambda>config.
     if ca config \<noteq> None \<and> ca_directory config \<noteq> None then
       raise (Exception
         ''The config should have either ca_directory or ca (deprecated) but not both.'')
     else return (config\<lparr>certs := map strip_cert (certs config)\<rparr>)))"

subsection \<open>Reconciler\<close>

text \<open>Lines 144-146: the dictionary of the observed certificates; a later one wins.\<close>

definition index_by_name :: "rancher_cert list \<Rightarrow> (string \<rightharpoonup> rancher_cert)" where
  "index_by_name rancher_certs =
     fold (\<lambda>cert by_name. by_name(strip (rc_name cert) \<mapsto> cert)) rancher_certs Map.empty"

text \<open>
  The body of the loop of lines 159-176, for one entry of the config. \<open>day\<close> is one day in
  microseconds: \<^verbatim>\<open>timedelta.days\<close> is the floor of the difference in days.
\<close>

definition day :: int where
  "day = 86400000000"

definition check_one ::
  "env \<Rightarrow> int \<Rightarrow> (string \<rightharpoonup> rancher_cert) \<Rightarrow> cert_config \<Rightarrow> work_item list
     \<Rightarrow> error + work_item list" where
  "check_one env now rancher_certs_by_name cert_config to_do =
     (let nm = name cert_config; doms = domains cert_config in
      case rancher_certs_by_name nm of
        None \<Rightarrow> Inr (to_do @ [(0, nm, doms, None)])
      | Some rancher_cert \<Rightarrow>
          (let link = links_self rancher_cert in
           if contains_sublist (subjectAlternativeNames rancher_cert) doms then
             (case strptime env (expiresAt rancher_cert) ''%a %b %d %H:%M:%S %Z %Y'' of
                Inl e \<Rightarrow> Inl e
              | Inr cert_exp \<Rightarrow>
                  (let remaining_days = (cert_exp - now) div day in
                   if remaining_days < 30
                   then Inr (to_do @ [(remaining_days, nm, doms, Some link)])
                   else Inr to_do))
           else Inr (to_do @ [(0, nm, doms, Some link)])))"

text \<open>The loop of lines 159-176: an exception leaves it at once.\<close>

fun check_loop ::
  "env \<Rightarrow> int \<Rightarrow> (string \<rightharpoonup> rancher_cert) \<Rightarrow> cert_config list \<Rightarrow> work_item list
     \<Rightarrow> error + work_item list" where
  "check_loop env now by_name [] to_do = Inr to_do"
| "check_loop env now by_name (cert_config # rest) to_do =
     (case check_one env now by_name cert_config to_do of
        Inl e \<Rightarrow> Inl e
      | Inr to_do' \<Rightarrow> check_loop env now by_name rest to_do')"

text \<open>The loop of lines 180-181.\<close>

fun make_certs :: "env \<Rightarrow> config \<Rightarrow> work_item list \<Rightarrow> unit prog" where
  "make_certs env config [] = return ()"
| "make_certs env config ((_, nm, doms, link) # rest) =
     bind (make_cert env config nm doms link) (\<lambda>_. make_certs env config rest)"

text \<open>
  \<^verbatim>\<open>check_certs(config, logger)\<close>, lines 138-183. \<^verbatim>\<open>to_do.sort()\<close> sorts the tuples
  by Python's tuple order, which is the lexicographic order of \<open>work_item\<close>.
\<close>

definition check_certs :: "env \<Rightarrow> config \<Rightarrow> int prog" where
  "check_certs env config =
     bind (\<lambda>w. (Inr (datetime_now env w), w)) (\<lambda>now.
     bind (rancher_get_certs env) (\<lambda>rancher_certs.
     let rancher_certs_by_name = index_by_name rancher_certs in
     bind (ask (\<lambda>w. check_loop env now rancher_certs_by_name (certs config) [])) (\<lambda>to_do.
     let to_do = sort to_do in
     bind (make_certs env config to_do) (\<lambda>_.
     return (int (length to_do))))))"

subsection \<open>Run loop\<close>

text \<open>\<^verbatim>\<open>single_run()\<close>, lines 203-217.\<close>

definition single_run :: "env \<Rightarrow> int prog" where
  "single_run env =
     bind (load_config env) (\<lambda>config.
     bind (check_certs env config) (\<lambda>nb_certs.
     return nb_certs))"

text \<open>\<^verbatim>\<open>datadog.statsd.OK\<close> and \<^verbatim>\<open>datadog.statsd.CRITICAL\<close>.\<close>

definition statsd_OK :: nat where
  "statsd_OK = 0"

definition statsd_CRITICAL :: nat where
  "statsd_CRITICAL = 2"

text \<open>\<^verbatim>\<open>type(e).__name__\<close> and \<^verbatim>\<open>str(e)\<close>; \<^verbatim>\<open>IOError\<close> is \<^verbatim>\<open>OSError\<close> in Python 3.\<close>

fun type_name :: "error \<Rightarrow> string" where
  "type_name (Exception m) = ''Exception''"
| "type_name (IOError m) = ''OSError''"
| "type_name (FileNotFoundError p) = ''FileNotFoundError''"
| "type_name (KeyError k) = ''KeyError''"
| "type_name (ValueError m) = ''ValueError''"
| "type_name (External c m) = c"

fun str_error :: "error \<Rightarrow> string" where
  "str_error (Exception m) = m"
| "str_error (IOError m) = m"
| "str_error (FileNotFoundError p) =
     ''[Errno 2] No such file or directory: '' @ [CHR 0x27] @ p @ [CHR 0x27]"
| "str_error (KeyError k) = [CHR 0x27] @ k @ [CHR 0x27]"
| "str_error (ValueError m) = m"
| "str_error (External c m) = m"

text \<open>One iteration of the \<^verbatim>\<open>while True\<close> loop of \<^verbatim>\<open>daemon()\<close>, lines 227-243.\<close>

definition daemon_pass :: "env \<Rightarrow> unit prog" where
  "daemon_pass env =
     bind (try_except
             (bind (single_run env) (\<lambda>nb_certs.
              bind (emit (Statsd_event ''Rancher Auto Certs executed successfully''
                            (str_int nb_certs @ '' certificate(s) created or renewed'')
                            ''success'')) (\<lambda>_.
              emit (Statsd_service_check ''rancher_auto_certs.status'' statsd_OK))))
             (\<lambda>e.
              bind (emit (Statsd_event ''Rancher Auto Certs encountered an error''
                            (''Please check container logs.\<newline>'' @ type_name e @ '': ''
                               @ str_error e)
                            ''error'')) (\<lambda>_.
              emit (Statsd_service_check ''rancher_auto_certs.status'' statsd_CRITICAL))))
          (\<lambda>_.
     emit (Time_sleep (24 * 60 * 60)))"

text \<open>
  The \<^verbatim>\<open>while True\<close> loop, run for a given number of iterations. The loop has no
  \<^verbatim>\<open>break\<close> and no \<^verbatim>\<open>return\<close>: \<open>Inr ()\<close> says that the iterations asked for have all
  been run and the loop is still going, \<open>Inl e\<close> that an exception has ended it.
\<close>

fun daemon_loop :: "nat \<Rightarrow> env \<Rightarrow> unit prog" where
  "daemon_loop 0 env = return ()"
| "daemon_loop (Suc n) env = bind (daemon_pass env) (\<lambda>_. daemon_loop n env)"

text \<open>\<^verbatim>\<open>daemon()\<close>, lines 220-243, for a given number of iterations of its loop.\<close>

definition daemon :: "nat \<Rightarrow> env \<Rightarrow> unit prog" where
  "daemon n env =
     bind (ask (\<lambda>w. py_int env (case environ env ''DOGSTATSD_PORT'' of
                                  None \<Rightarrow> ''8125'' | Some p \<Rightarrow> p))) (\<lambda>port.
     bind (emit (Datadog_initialize
                   (case environ env ''DOGSTATSD_HOST'' of None \<Rightarrow> ''127.0.0.1'' | Some h \<Rightarrow> h)
                   port)) (\<lambda>_.
     daemon_loop n env))"

subsection \<open>Derived notions used in the statements\<close>

text \<open>What the iteration for one desired certificate appends to \<^verbatim>\<open>to_do\<close>.\<close>

definition enqueued ::
  "env \<Rightarrow> int \<Rightarrow> (string \<rightharpoonup> rancher_cert) \<Rightarrow> cert_config \<Rightarrow> work_item list" where
  "enqueued env now by_name cert_config =
     (case check_one env now by_name cert_config [] of Inl e \<Rightarrow> [] | Inr q \<Rightarrow> q)"

text \<open>The components of a work item.\<close>

definition urgency :: "work_item \<Rightarrow> int" where
  "urgency item = fst item"

definition item_name :: "work_item \<Rightarrow> string" where
  "item_name item = fst (snd item)"

definition item_domains :: "work_item \<Rightarrow> string list" where
  "item_domains item = fst (snd (snd item))"

definition item_link :: "work_item \<Rightarrow> string option" where
  "item_link item = snd (snd (snd item))"

text \<open>The CSR requests among the events: the \<^verbatim>\<open>openssl req\<close> calls.\<close>

fun is_csr_request :: "event \<Rightarrow> bool" where
  "is_csr_request (Openssl args ins) = (take 1 args = [''req''])"
| "is_csr_request ev = False"

text \<open>The calls of \<^verbatim>\<open>time.sleep\<close> among the events.\<close>

fun is_sleep :: "event \<Rightarrow> bool" where
  "is_sleep (Time_sleep s) = True"
| "is_sleep ev = False"

text \<open>A statement that adds no event of a given kind to the trace.\<close>

definition keeps :: "(event \<Rightarrow> bool) \<Rightarrow> 'a prog \<Rightarrow> bool" where
  "keeps P p = (\<forall>w. filter P (trace (snd (p w))) = filter P (trace w))"

text \<open>What the monitoring sees: the statsd events, the service checks and the sleeps.\<close>

fun is_monitoring :: "event \<Rightarrow> bool" where
  "is_monitoring (Statsd_event title msg alert_type) = True"
| "is_monitoring (Statsd_service_check check_name status) = True"
| "is_monitoring (Time_sleep s) = True"
| "is_monitoring ev = False"

text \<open>What an iteration of the daemon's loop adds for the monitoring, by the outcome of its pass.\<close>

definition pass_report :: "error + int \<Rightarrow> event list" where
  "pass_report outcome =
     (case outcome of
        Inr nb_certs \<Rightarrow>
          [Statsd_event ''Rancher Auto Certs executed successfully''
             (str_int nb_certs @ '' certificate(s) created or renewed'') ''success'',
           Statsd_service_check ''rancher_auto_certs.status'' statsd_OK,
           Time_sleep 86400]
      | Inl e \<Rightarrow>
          [Statsd_event ''Rancher Auto Certs encountered an error''
             (''Please check container logs.\<newline>'' @ type_name e @ '': '' @ str_error e)
             ''error'',
           Statsd_service_check ''rancher_auto_certs.status'' statsd_CRITICAL,
           Time_sleep 86400])"

text \<open>The outcomes of the passes of the first iterations of the daemon's loop, in order.\<close>

fun pass_outcomes :: "nat \<Rightarrow> env \<Rightarrow> world \<Rightarrow> (error + int) list" where
  "pass_outcomes 0 env w = []"
| "pass_outcomes (Suc n) env w =
     fst (single_run env w) # pass_outcomes n env (snd (daemon_pass env w))"

subsection \<open>A concrete installation\<close>

text \<open>
  A Rancher with six certificates and a clock that reads 2026-01-01 00:00:00 (time 0).
  The names below are used to run the definitions on concrete inputs.
\<close>

definition ex_format :: string where
  "ex_format = ''%a %b %d %H:%M:%S %Z %Y''"

definition ex_strptime :: "string \<Rightarrow> string \<Rightarrow> error + int" where
  "ex_strptime s f =
     (if f \<noteq> ex_format then Inl (ValueError ''bad directive'')
      else if s = ''Sun Jan 11 00:00:00 UTC 2026'' then Inr (10 * day)
      else if s = ''Tue Jan 06 00:00:00 UTC 2026'' then Inr (5 * day)
      else if s = ''Sat Apr 11 00:00:00 UTC 2026'' then Inr (100 * day)
      else if s = ''Wed Dec 31 12:00:00 UTC 2025'' then Inr (- (day div 2))
      else Inl (ValueError (''time data '' @ s @ '' does not match format '' @ f)))"

definition ex_rancher_certs :: "rancher_cert list" where
  "ex_rancher_certs =
     [\<lparr>rc_name = ''site '', subjectAlternativeNames = [''www.a.com'', ''a.com''],
       expiresAt = ''Sun Jan 11 00:00:00 UTC 2026'', links_self = ''http://rancher/v1/certificates/1c1''\<rparr>,
      \<lparr>rc_name = ''other'', subjectAlternativeNames = [''o.com''],
       expiresAt = ''Tue Jan 06 00:00:00 UTC 2026'', links_self = ''http://rancher/v1/certificates/1c2''\<rparr>,
      \<lparr>rc_name = ''healthy'', subjectAlternativeNames = [''h.com''],
       expiresAt = ''Sat Apr 11 00:00:00 UTC 2026'', links_self = ''http://rancher/v1/certificates/1c3''\<rparr>,
      \<lparr>rc_name = ''gap'', subjectAlternativeNames = [''g.com''],
       expiresAt = ''Sat Apr 11 00:00:00 UTC 2026'', links_self = ''http://rancher/v1/certificates/1c4''\<rparr>,
      \<lparr>rc_name = ''expired'', subjectAlternativeNames = [''e.com''],
       expiresAt = ''Wed Dec 31 12:00:00 UTC 2025'', links_self = ''http://rancher/v1/certificates/1c5''\<rparr>,
      \<lparr>rc_name = ''broken'', subjectAlternativeNames = [''x.com''],
       expiresAt = ''2026-01-11T00:00:00Z'', links_self = ''http://rancher/v1/certificates/1c6''\<rparr>]"

definition ex_config :: "cert_config list \<Rightarrow> config" where
  "ex_config cs =
     \<lparr>ca = None, ca_directory = Some ''https://acme.example/directory'', chain = None,
      key_length = 2048, account_key = ''/keys/account.key'',
      acme_dir = ''/var/www/challenges'', certs = cs\<rparr>"

text \<open>Desired certificates for that installation.\<close>

definition ex_site :: cert_config where
  "ex_site = \<lparr>name = ''site'', domains = [''a.com'', ''www.a.com'']\<rparr>"

definition ex_new :: cert_config where
  "ex_new = \<lparr>name = ''new'', domains = [''n.com'']\<rparr>"

definition ex_healthy :: cert_config where
  "ex_healthy = \<lparr>name = ''healthy'', domains = [''h.com'']\<rparr>"

definition ex_expired :: cert_config where
  "ex_expired = \<lparr>name = ''expired'', domains = [''e.com'']\<rparr>"

definition ex_gap :: cert_config where
  "ex_gap = \<lparr>name = ''gap'', domains = [''g.com'', ''www.g.com'']\<rparr>"

definition ex_broken :: cert_config where
  "ex_broken = \<lparr>name = ''broken'', domains = [''x.com'']\<rparr>"

definition ex_a :: cert_config where
  "ex_a = \<lparr>name = ''a-site'', domains = [''a.example.org'']\<rparr>"

definition ex_b :: cert_config where
  "ex_b = \<lparr>name = ''b-site'', domains = [''b.example.org'']\<rparr>"

definition ex_nodomains :: cert_config where
  "ex_nodomains = \<lparr>name = ''site'', domains = []\<rparr>"

definition ex_new_nodomains :: cert_config where
  "ex_new_nodomains = \<lparr>name = ''new'', domains = []\<rparr>"

definition ex_raw_new :: cert_config where
  "ex_raw_new = \<lparr>name = '' new  '', domains = [''n.com '']\<rparr>"

definition ex_raw_gap :: cert_config where
  "ex_raw_gap = \<lparr>name = ''gap '', domains = ['' g.com'', ''www.g.com'']\<rparr>"

definition ex_mixed :: config where
  "ex_mixed = ex_config [ex_site, ex_new, ex_expired, ex_gap]"

definition ex_with_broken :: config where
  "ex_with_broken = ex_config [ex_new, ex_broken, ex_site]"

definition ex_both :: config where
  "ex_both = (ex_config [ex_site])\<lparr>ca := Some ''https://acme-v01.api.letsencrypt.org''\<rparr>"

definition ex_raw_config :: config where
  "ex_raw_config = ex_config [ex_raw_new, ex_raw_gap]"

text \<open>
  An \<^verbatim>\<open>openssl\<close> that writes the key or the CSR to the path it is given, and rejects a
  subject longer than a common name may be (64 characters after \<^verbatim>\<open>/CN=\<close>), as the
  real one does.
\<close>

definition ex_openssl :: "string list \<Rightarrow> world \<Rightarrow> completed" where
  "ex_openssl args w =
     (if args ! 0 = ''genrsa''
      then \<lparr>returncode = 0, stdout = [], stderr = [],
            files_after = (files w)(args ! 2 \<mapsto> ''PRIVATE KEY'')\<rparr>
      else if 68 < length (args ! 8)
      then \<lparr>returncode = 1, stdout = [], stderr = ''string too long'',
            files_after = files w\<rparr>
      else \<lparr>returncode = 0, stdout = [], stderr = [],
            files_after = (files w)(args ! 6 \<mapsto> ''CSR'')\<rparr>)"

definition ex_env :: "config \<Rightarrow> env" where
  "ex_env cfg =
     \<lparr>environ = [''CATTLE_URL'' \<mapsto> ''http://rancher/v1'', ''CATTLE_ACCESS_KEY'' \<mapsto> ''ak'',
                 ''CATTLE_SECRET_KEY'' \<mapsto> ''sk''],
      uuid4_hex = (\<lambda>n. ''uuid'' @ str_nat n),
      openssl_proc = ex_openssl,
      acme_tiny_get_crt = (\<lambda>acct csr dir kwargs w. (Inr ''CERTIFICATE'', files w)),
      requests_get = (\<lambda>url auth w.
        Inr \<lparr>status_code = 200, resp_text = [], json_data = ex_rancher_certs\<rparr>),
      requests_post = (\<lambda>url payload auth w.
        Inr \<lparr>status_code = 201, resp_text = [], json_data = []\<rparr>),
      requests_put = (\<lambda>url payload auth w.
        Inr \<lparr>status_code = 200, resp_text = [], json_data = []\<rparr>),
      datetime_now = (\<lambda>w. 0),
      yaml_safe_load = (\<lambda>s. Inr cfg),
      strptime = ex_strptime,
      py_int = (\<lambda>s. if s = ''8125'' then Inr 8125 else Inl (ValueError s))\<rparr>"

text \<open>The same installation with an ACME server that refuses the challenge.\<close>

definition ex_env_refused :: "config \<Rightarrow> env" where
  "ex_env_refused cfg =
     (ex_env cfg)\<lparr>acme_tiny_get_crt :=
        (\<lambda>acct csr dir kwargs w. (Inl (ValueError ''Challenge did not pass''), files w))\<rparr>"

text \<open>The same installation with an \<^verbatim>\<open>openssl\<close> whose \<^verbatim>\<open>req\<close> command fails.\<close>

definition ex_env_req_fails :: "config \<Rightarrow> env" where
  "ex_env_req_fails cfg =
     (ex_env cfg)\<lparr>openssl_proc := (\<lambda>args w.
        if args ! 0 = ''genrsa'' then ex_openssl args w
        else \<lparr>returncode = 1, stdout = [], stderr = ''problems making Certificate Request'',
              files_after = files w\<rparr>)\<rparr>"

text \<open>A host name of 66 characters, more than a common name may have.\<close>

definition ex_long_domain :: string where
  "ex_long_domain = ''a-rather-long-host-name.with-several-labels.department.example.org''"

definition ex_world :: world where
  "ex_world =
     \<lparr>files = [''config/config.yml'' \<mapsto> ''certs: []'', ''/etc/ssl/openssl.cnf'' \<mapsto> ''[req]''],
      trace = [], uuids_drawn = 0\<rparr>"

subsection \<open>Domain coverage\<close>

lemma contains_sublist_subset: "contains_sublist lst sublst = (set sublst \<subseteq> set lst)"
  by (induction sublst) auto

text \<open>
  C5. The coverage check is exactly the subset test between the desired domains and the
  observed subjectAlternativeNames: extra observed names do not matter, and reordering
  either list (any permutation) leaves the result unchanged.
\<close>

theorem contains_sublist_pure_subset:
  "contains_sublist lst sublst = (\<forall>d \<in> set sublst. d \<in> set lst)
   \<and> (contains_sublist lst sublst \<longrightarrow> contains_sublist (lst @ extra) sublst)
   \<and> (mset lst' = mset lst \<and> mset sublst' = mset sublst
        \<longrightarrow> contains_sublist lst' sublst' = contains_sublist lst sublst)"
proof -
  have perm: "contains_sublist lst' sublst' = contains_sublist lst sublst"
    if "mset lst' = mset lst" "mset sublst' = mset sublst"
  proof -
    from that have "set lst' = set lst" "set sublst' = set sublst"
      by (metis set_mset_mset)+
    then show ?thesis by (simp add: contains_sublist_subset)
  qed
  show ?thesis
    using perm by (auto simp: contains_sublist_subset)
qed

theorem contains_sublist_pure_subset_witness:
  "contains_sublist [''b'', ''a'', ''c''] [''a'', ''b'']
   \<and> contains_sublist ([''b'', ''a''] @ [''c'']) [''a'', ''b'']
   \<and> mset [''a'', ''b'', ''c''] = mset [''b'', ''a'', ''c'']
   \<and> mset [''b'', ''a''] = mset [''a'', ''b'']
   \<and> contains_sublist [''a'', ''b'', ''c''] [''b'', ''a'']
   \<and> \<not> contains_sublist [''a'', ''c''] [''a'', ''b'']"
  using contains_sublist_pure_subset
    [of "[''b'', ''a'', ''c'']" "[''a'', ''b'']" "[]" "[''a'', ''b'', ''c'']" "[''b'', ''a'']"]
  by simp


subsection \<open>The classification loop\<close>

lemma check_one_append:
  "check_one env now bn c q = Inr q' \<Longrightarrow> q' = q @ enqueued env now bn c"
  by (auto simp: check_one_def enqueued_def Let_def split: option.splits sum.splits if_splits)

lemma check_loop_concat:
  "check_loop env now bn cs q = Inr q' \<Longrightarrow> q' = q @ concat (map (enqueued env now bn) cs)"
proof (induction cs arbitrary: q)
  case Nil
  then show ?case by simp
next
  case (Cons c cs)
  then obtain q1 where one: "check_one env now bn c q = Inr q1"
    and rest: "check_loop env now bn cs q1 = Inr q'"
    by (auto split: sum.splits)
  from one have "q1 = q @ enqueued env now bn c" by (rule check_one_append)
  with Cons.IH [OF rest] show ?case by simp
qed

lemma index_by_name_fold:
  "fold (\<lambda>cert by_name. by_name(strip (rc_name cert) \<mapsto> cert)) rcs m n = Some rc \<Longrightarrow>
   (rc \<in> set rcs \<and> strip (rc_name rc) = n) \<or> m n = Some rc"
proof (induction rcs arbitrary: m)
  case Nil
  then show ?case by simp
next
  case (Cons a rcs)
  from Cons.prems have "fold (\<lambda>cert by_name. by_name(strip (rc_name cert) \<mapsto> cert)) rcs
      (m(strip (rc_name a) \<mapsto> a)) n = Some rc" by (simp only: fold_simps)
  from Cons.IH [OF this] show ?case by (auto split: if_splits)
qed

lemma index_by_name_Some:
  "index_by_name rcs n = Some rc \<Longrightarrow> rc \<in> set rcs \<and> strip (rc_name rc) = n"
  using index_by_name_fold [of rcs Map.empty n rc] by (simp add: index_by_name_def)

lemma dom_index_fold:
  "dom (fold (\<lambda>cert by_name. by_name(strip (rc_name cert) \<mapsto> cert)) rcs m)
     = dom m \<union> (\<lambda>rc. strip (rc_name rc)) ` set rcs"
  by (induction rcs arbitrary: m) auto

lemma index_by_name_None:
  "(index_by_name rcs n = None) = (\<forall>rc \<in> set rcs. strip (rc_name rc) \<noteq> n)"
proof -
  have "dom (index_by_name rcs) = (\<lambda>rc. strip (rc_name rc)) ` set rcs"
    by (simp add: index_by_name_def dom_index_fold)
  then show ?thesis by (metis domIff image_iff)
qed

subsection \<open>Expiring and healthy certificates\<close>

text \<open>
  C3. A desired certificate that is matched by name and fully covered, and whose expiry
  parses, has \<open>remaining_days\<close> the floor of the difference to now in days. If that is
  below 30, the queue built by the loop holds, between what the earlier and the later
  desired certificates contribute, exactly one item for it, with urgency
  \<open>remaining_days\<close> (negative when already expired) and the observed link; from 30 on
  it holds none.
\<close>

theorem expiring_enqueued_once:
  assumes "check_loop env now (index_by_name rcs) (pre @ c # post) [] = Inr to_do"
    and "index_by_name rcs (name c) = Some rc"
    and "contains_sublist (subjectAlternativeNames rc) (domains c)"
    and "strptime env (expiresAt rc) ''%a %b %d %H:%M:%S %Z %Y'' = Inr cert_exp"
    and "remaining_days = (cert_exp - now) div day"
  shows "remaining_days * day \<le> cert_exp - now \<and> cert_exp - now < (remaining_days + 1) * day
    \<and> (remaining_days < 30 \<longrightarrow>
         to_do = concat (map (enqueued env now (index_by_name rcs)) pre)
                 @ [(remaining_days, name c, domains c, Some (links_self rc))]
                 @ concat (map (enqueued env now (index_by_name rcs)) post))
    \<and> (remaining_days \<ge> 30 \<longrightarrow>
         to_do = concat (map (enqueued env now (index_by_name rcs)) pre)
                 @ concat (map (enqueued env now (index_by_name rcs)) post))"
proof -
  have enq: "enqueued env now (index_by_name rcs) c =
      (if remaining_days < 30
       then [(remaining_days, name c, domains c, Some (links_self rc))] else [])"
    using assms(2-5) by (simp add: enqueued_def check_one_def Let_def)
  have q: "to_do = concat (map (enqueued env now (index_by_name rcs)) (pre @ c # post))"
    using check_loop_concat [OF assms(1)] by simp
  have "0 < day" by (simp add: day_def)
  have floor: "remaining_days * day \<le> cert_exp - now
      \<and> cert_exp - now < (remaining_days + 1) * day"
  proof -
    let ?d = "cert_exp - now"
    have eq: "remaining_days * day = ?d - ?d mod day"
      unfolding assms(5) by (simp only: minus_mod_eq_div_mult)
    have bounds: "0 \<le> ?d mod day" "?d mod day < day"
      using \<open>0 < day\<close> by simp_all
    have "(remaining_days + 1) * day = remaining_days * day + day"
      by (simp only: distrib_right mult_1)
    with eq bounds show ?thesis by linarith
  qed
  show ?thesis using enq q floor by simp
qed

theorem expiring_enqueued_once_witness:
  "check_loop (ex_env (ex_config [])) 0 (index_by_name ex_rancher_certs)
       ([ex_new] @ ex_site # [ex_expired]) []
     = Inr [(0, ''new'', [''n.com''], None),
            (10, ''site'', [''a.com'', ''www.a.com''], Some ''http://rancher/v1/certificates/1c1''),
            (- 1, ''expired'', [''e.com''], Some ''http://rancher/v1/certificates/1c5'')]
   \<and> index_by_name ex_rancher_certs (name ex_site) = Some (ex_rancher_certs ! 0)
   \<and> contains_sublist (subjectAlternativeNames (ex_rancher_certs ! 0)) (domains ex_site)
   \<and> strptime (ex_env (ex_config [])) (expiresAt (ex_rancher_certs ! 0))
        ''%a %b %d %H:%M:%S %Z %Y'' = Inr (10 * day)
   \<and> (10 :: int) = (10 * day - 0) div day
   \<and> [(0, ''new'', [''n.com''], None),
       (10, ''site'', [''a.com'', ''www.a.com''], Some ''http://rancher/v1/certificates/1c1''),
       (- 1, ''expired'', [''e.com''], Some ''http://rancher/v1/certificates/1c5'')]
       = concat (map (enqueued (ex_env (ex_config [])) 0 (index_by_name ex_rancher_certs))
           [ex_new])
         @ [(10, name ex_site, domains ex_site, Some (links_self (ex_rancher_certs ! 0)))]
         @ concat (map (enqueued (ex_env (ex_config [])) 0 (index_by_name ex_rancher_certs))
             [ex_expired])
   \<and> check_loop (ex_env (ex_config [])) 0 (index_by_name ex_rancher_certs)
       ([ex_new] @ ex_healthy # [ex_expired]) []
     = Inr [(0, ''new'', [''n.com''], None),
            (- 1, ''expired'', [''e.com''], Some ''http://rancher/v1/certificates/1c5'')]
   \<and> index_by_name ex_rancher_certs (name ex_healthy) = Some (ex_rancher_certs ! 2)
   \<and> contains_sublist (subjectAlternativeNames (ex_rancher_certs ! 2)) (domains ex_healthy)
   \<and> strptime (ex_env (ex_config [])) (expiresAt (ex_rancher_certs ! 2))
        ''%a %b %d %H:%M:%S %Z %Y'' = Inr (100 * day)
   \<and> (100 :: int) = (100 * day - 0) div day
   \<and> [(0, ''new'', [''n.com''], None),
       (- 1, ''expired'', [''e.com''], Some ''http://rancher/v1/certificates/1c5'')]
       = concat (map (enqueued (ex_env (ex_config [])) 0 (index_by_name ex_rancher_certs))
           [ex_new])
         @ concat (map (enqueued (ex_env (ex_config [])) 0 (index_by_name ex_rancher_certs))
             [ex_expired])"
proof -
  let ?env = "ex_env (ex_config [])"
  have a1: "check_loop ?env 0 (index_by_name ex_rancher_certs)
       ([ex_new] @ ex_site # [ex_expired]) []
     = Inr [(0, ''new'', [''n.com''], None),
            (10, ''site'', [''a.com'', ''www.a.com''], Some ''http://rancher/v1/certificates/1c1''),
            (- 1, ''expired'', [''e.com''], Some ''http://rancher/v1/certificates/1c5'')]"
    by code_simp
  have a2: "index_by_name ex_rancher_certs (name ex_site) = Some (ex_rancher_certs ! 0)"
    by code_simp
  have a3: "contains_sublist (subjectAlternativeNames (ex_rancher_certs ! 0)) (domains ex_site)"
    by code_simp
  have a4: "strptime ?env (expiresAt (ex_rancher_certs ! 0)) ''%a %b %d %H:%M:%S %Z %Y''
        = Inr (10 * day)"
    by code_simp
  have a5: "(10 :: int) = (10 * day - 0) div day"
    by code_simp
  have b1: "check_loop ?env 0 (index_by_name ex_rancher_certs)
       ([ex_new] @ ex_healthy # [ex_expired]) []
     = Inr [(0, ''new'', [''n.com''], None),
            (- 1, ''expired'', [''e.com''], Some ''http://rancher/v1/certificates/1c5'')]"
    by code_simp
  have b2: "index_by_name ex_rancher_certs (name ex_healthy) = Some (ex_rancher_certs ! 2)"
    by code_simp
  have b3: "contains_sublist (subjectAlternativeNames (ex_rancher_certs ! 2))
      (domains ex_healthy)"
    by code_simp
  have b4: "strptime ?env (expiresAt (ex_rancher_certs ! 2)) ''%a %b %d %H:%M:%S %Z %Y''
        = Inr (100 * day)"
    by code_simp
  have b5: "(100 :: int) = (100 * day - 0) div day"
    by code_simp
  note expiring = expiring_enqueued_once [OF a1 a2 a3 a4 a5]
    and healthy = expiring_enqueued_once [OF b1 b2 b3 b4 b5]
  show ?thesis using a1 a2 a3 a4 a5 b1 b2 b3 b4 b5 expiring healthy by simp
qed

lemma enqueued_cases:
  assumes "item \<in> set (enqueued env now bn c)"
  shows "(bn (name c) = None \<and> item = (0, name c, domains c, None))
    \<or> (\<exists>rc. bn (name c) = Some rc \<and> \<not> contains_sublist (subjectAlternativeNames rc) (domains c)
          \<and> item = (0, name c, domains c, Some (links_self rc)))
    \<or> (\<exists>rc cert_exp. bn (name c) = Some rc
          \<and> contains_sublist (subjectAlternativeNames rc) (domains c)
          \<and> strptime env (expiresAt rc) ''%a %b %d %H:%M:%S %Z %Y'' = Inr cert_exp
          \<and> (cert_exp - now) div day < 30
          \<and> item = ((cert_exp - now) div day, name c, domains c, Some (links_self rc)))"
  using assms
  by (auto simp: enqueued_def check_one_def Let_def split: option.splits sum.splits if_splits)

lemma check_loop_item:
  assumes "check_loop env now bn cs [] = Inr to_do" and "item \<in> set to_do"
  shows "\<exists>c \<in> set cs. item \<in> set (enqueued env now bn c)"
  using check_loop_concat [OF assms(1)] assms(2) by auto

subsection \<open>Absent certificates and domain gaps\<close>

text \<open>
  C4. The desired certificate is the entry of the config as \<^verbatim>\<open>load_config\<close> leaves it,
  with its name and domains stripped. If its stripped name is the stripped name of no
  observed certificate, the queue built by the loop holds exactly one item for it, with
  urgency 0 and no link. If the name is matched by an observed certificate (the one the
  index holds for that name) whose subjectAlternativeNames do not cover the desired
  domains, the queue holds exactly one item for it, with urgency 0 and the link of that
  observed certificate.
\<close>

theorem absent_and_gap_enqueued_once:
  assumes "check_loop env now (index_by_name rcs) (pre @ strip_cert raw # post) [] = Inr to_do"
  shows "((\<forall>rc \<in> set rcs. strip (rc_name rc) \<noteq> strip (name raw)) \<longrightarrow>
           to_do = concat (map (enqueued env now (index_by_name rcs)) pre)
                   @ [(0, strip (name raw), map strip (domains raw), None)]
                   @ concat (map (enqueued env now (index_by_name rcs)) post))
    \<and> (index_by_name rcs (strip (name raw)) = Some rc
         \<and> \<not> contains_sublist (subjectAlternativeNames rc) (map strip (domains raw)) \<longrightarrow>
           rc \<in> set rcs \<and> strip (rc_name rc) = strip (name raw)
           \<and> to_do = concat (map (enqueued env now (index_by_name rcs)) pre)
                   @ [(0, strip (name raw), map strip (domains raw), Some (links_self rc))]
                   @ concat (map (enqueued env now (index_by_name rcs)) post))"
proof -
  let ?c = "strip_cert raw"
  have q: "to_do = concat (map (enqueued env now (index_by_name rcs)) (pre @ ?c # post))"
    using check_loop_concat [OF assms] by simp
  have absent: "enqueued env now (index_by_name rcs) ?c
      = [(0, strip (name raw), map strip (domains raw), None)]"
    if "\<forall>rc \<in> set rcs. strip (rc_name rc) \<noteq> strip (name raw)"
  proof -
    from that have "index_by_name rcs (strip (name raw)) = None"
      by (simp add: index_by_name_None)
    then show ?thesis by (simp add: enqueued_def check_one_def strip_cert_def)
  qed
  have gap: "enqueued env now (index_by_name rcs) ?c
      = [(0, strip (name raw), map strip (domains raw), Some (links_self rc))]"
    if "index_by_name rcs (strip (name raw)) = Some rc"
      and "\<not> contains_sublist (subjectAlternativeNames rc) (map strip (domains raw))"
    using that by (simp add: enqueued_def check_one_def strip_cert_def)
  show ?thesis using q absent gap index_by_name_Some [of rcs "strip (name raw)" rc] by simp
qed

theorem absent_and_gap_enqueued_once_witness:
  "check_loop (ex_env (ex_config [])) 0 (index_by_name ex_rancher_certs)
       ([ex_site] @ strip_cert ex_raw_new # [ex_healthy]) []
     = Inr [(10, ''site'', [''a.com'', ''www.a.com''], Some ''http://rancher/v1/certificates/1c1''),
            (0, ''new'', [''n.com''], None)]
   \<and> list_all (\<lambda>rc. strip (rc_name rc) \<noteq> strip (name ex_raw_new)) ex_rancher_certs
   \<and> [(10, ''site'', [''a.com'', ''www.a.com''], Some ''http://rancher/v1/certificates/1c1''),
       (0, ''new'', [''n.com''], None)]
       = concat (map (enqueued (ex_env (ex_config [])) 0 (index_by_name ex_rancher_certs))
           [ex_site])
         @ [(0, strip (name ex_raw_new), map strip (domains ex_raw_new), None)]
         @ concat (map (enqueued (ex_env (ex_config [])) 0 (index_by_name ex_rancher_certs))
             [ex_healthy])
   \<and> check_loop (ex_env (ex_config [])) 0 (index_by_name ex_rancher_certs)
       ([ex_site] @ strip_cert ex_raw_gap # [ex_healthy]) []
     = Inr [(10, ''site'', [''a.com'', ''www.a.com''], Some ''http://rancher/v1/certificates/1c1''),
            (0, ''gap'', [''g.com'', ''www.g.com''], Some ''http://rancher/v1/certificates/1c4'')]
   \<and> index_by_name ex_rancher_certs (strip (name ex_raw_gap)) = Some (ex_rancher_certs ! 3)
   \<and> \<not> contains_sublist (subjectAlternativeNames (ex_rancher_certs ! 3))
         (map strip (domains ex_raw_gap))
   \<and> strip (rc_name (ex_rancher_certs ! 3)) = strip (name ex_raw_gap)
   \<and> [(10, ''site'', [''a.com'', ''www.a.com''], Some ''http://rancher/v1/certificates/1c1''),
       (0, ''gap'', [''g.com'', ''www.g.com''], Some ''http://rancher/v1/certificates/1c4'')]
       = concat (map (enqueued (ex_env (ex_config [])) 0 (index_by_name ex_rancher_certs))
           [ex_site])
         @ [(0, strip (name ex_raw_gap), map strip (domains ex_raw_gap),
             Some (links_self (ex_rancher_certs ! 3)))]
         @ concat (map (enqueued (ex_env (ex_config [])) 0 (index_by_name ex_rancher_certs))
             [ex_healthy])"
proof -
  let ?env = "ex_env (ex_config [])"
  have a1: "check_loop ?env 0 (index_by_name ex_rancher_certs)
       ([ex_site] @ strip_cert ex_raw_new # [ex_healthy]) []
     = Inr [(10, ''site'', [''a.com'', ''www.a.com''], Some ''http://rancher/v1/certificates/1c1''),
            (0, ''new'', [''n.com''], None)]"
    by code_simp
  have a2: "list_all (\<lambda>rc. strip (rc_name rc) \<noteq> strip (name ex_raw_new)) ex_rancher_certs"
    by code_simp
  then have a2': "\<forall>rc \<in> set ex_rancher_certs. strip (rc_name rc) \<noteq> strip (name ex_raw_new)"
    by (simp only: list_all_iff)
  have b1: "check_loop ?env 0 (index_by_name ex_rancher_certs)
       ([ex_site] @ strip_cert ex_raw_gap # [ex_healthy]) []
     = Inr [(10, ''site'', [''a.com'', ''www.a.com''], Some ''http://rancher/v1/certificates/1c1''),
            (0, ''gap'', [''g.com'', ''www.g.com''], Some ''http://rancher/v1/certificates/1c4'')]"
    by code_simp
  have b2: "index_by_name ex_rancher_certs (strip (name ex_raw_gap)) = Some (ex_rancher_certs ! 3)"
    by code_simp
  have b3: "\<not> contains_sublist (subjectAlternativeNames (ex_rancher_certs ! 3))
         (map strip (domains ex_raw_gap))"
    by code_simp
  note absent = absent_and_gap_enqueued_once [OF a1, THEN conjunct1, THEN mp, OF a2']
    and gap = absent_and_gap_enqueued_once [OF b1, THEN conjunct2, THEN mp, OF conjI [OF b2 b3]]
  show ?thesis using a1 a2 b1 b2 b3 absent gap by simp
qed

subsection \<open>Empty domain lists\<close>

text \<open>
  C10. \<open>contains_sublist lst []\<close> holds for every list. So a desired certificate with no
  domains whose name is matched takes the covering branch of the loop: it is enqueued
  with its remaining days when they are below 30, and not at all otherwise. Every item
  with no domains in the queue is rejected by \<^verbatim>\<open>make_cert\<close> with "No domains for
  certificate" before anything is done, and it comes either from an unmatched name
  (urgency 0, no link) or from the covering branch (urgency the remaining days, below
  30), never from the branch for missing domains.
\<close>

theorem empty_domains_never_domain_gap:
  "contains_sublist lst []
   \<and> (domains c = [] \<and> by_name (name c) = Some rc \<longrightarrow>
        check_one env now by_name c q =
          (case strptime env (expiresAt rc) ''%a %b %d %H:%M:%S %Z %Y'' of
             Inl e \<Rightarrow> Inl e
           | Inr cert_exp \<Rightarrow>
               if (cert_exp - now) div day < 30
               then Inr (q @ [((cert_exp - now) div day, name c, [], Some (links_self rc))])
               else Inr q))
   \<and> (check_loop env now by_name cs [] = Inr to_do \<and> item \<in> set to_do
        \<and> item_domains item = [] \<longrightarrow>
        make_cert env config (item_name item) (item_domains item) (item_link item) w
          = (Inl (Exception ''No domains for certificate''), w)
        \<and> ((by_name (item_name item) = None \<and> urgency item = 0 \<and> item_link item = None)
           \<or> (\<exists>rc cert_exp. by_name (item_name item) = Some rc
                \<and> strptime env (expiresAt rc) ''%a %b %d %H:%M:%S %Z %Y'' = Inr cert_exp
                \<and> urgency item = (cert_exp - now) div day \<and> urgency item < 30
                \<and> item_link item = Some (links_self rc))))"
proof -
  have one: "check_one env now by_name c q =
          (case strptime env (expiresAt rc) ''%a %b %d %H:%M:%S %Z %Y'' of
             Inl e \<Rightarrow> Inl e
           | Inr cert_exp \<Rightarrow>
               if (cert_exp - now) div day < 30
               then Inr (q @ [((cert_exp - now) div day, name c, [], Some (links_self rc))])
               else Inr q)"
    if "domains c = []" "by_name (name c) = Some rc"
    using that by (simp add: check_one_def Let_def split: sum.splits)
  have items: "make_cert env config (item_name item) (item_domains item) (item_link item) w
          = (Inl (Exception ''No domains for certificate''), w)
        \<and> ((by_name (item_name item) = None \<and> urgency item = 0 \<and> item_link item = None)
           \<or> (\<exists>rc cert_exp. by_name (item_name item) = Some rc
                \<and> strptime env (expiresAt rc) ''%a %b %d %H:%M:%S %Z %Y'' = Inr cert_exp
                \<and> urgency item = (cert_exp - now) div day \<and> urgency item < 30
                \<and> item_link item = Some (links_self rc)))"
    if loop: "check_loop env now by_name cs [] = Inr to_do" and mem: "item \<in> set to_do"
      and empty: "item_domains item = []"
  proof -
    from check_loop_item [OF loop mem] obtain c' where
      "item \<in> set (enqueued env now by_name c')" by blast
    from enqueued_cases [OF this] empty
    have "(by_name (item_name item) = None \<and> urgency item = 0 \<and> item_link item = None)
           \<or> (\<exists>rc cert_exp. by_name (item_name item) = Some rc
                \<and> strptime env (expiresAt rc) ''%a %b %d %H:%M:%S %Z %Y'' = Inr cert_exp
                \<and> urgency item = (cert_exp - now) div day \<and> urgency item < 30
                \<and> item_link item = Some (links_self rc))"
      by (auto simp: item_domains_def item_name_def urgency_def item_link_def)
    moreover have "make_cert env config (item_name item) (item_domains item) (item_link item) w
          = (Inl (Exception ''No domains for certificate''), w)"
      using empty by (simp add: make_cert_def raise_def)
    ultimately show ?thesis by simp
  qed
  show ?thesis using one items by simp
qed

theorem empty_domains_never_domain_gap_witness:
  "contains_sublist [''a.com''] []
   \<and> domains ex_nodomains = []
   \<and> index_by_name ex_rancher_certs (name ex_nodomains) = Some (ex_rancher_certs ! 0)
   \<and> check_one (ex_env (ex_config [])) 0 (index_by_name ex_rancher_certs) ex_nodomains []
       = Inr [(10, ''site'', [], Some ''http://rancher/v1/certificates/1c1'')]
   \<and> check_loop (ex_env (ex_config [])) 0 (index_by_name ex_rancher_certs)
        [ex_new_nodomains, ex_nodomains] []
       = Inr [(0, ''new'', [], None), (10, ''site'', [], Some ''http://rancher/v1/certificates/1c1'')]
   \<and> item_domains (0, ''new'', [], None) = []
   \<and> item_domains (10, ''site'', [], Some ''http://rancher/v1/certificates/1c1'') = []
   \<and> make_cert (ex_env (ex_config [])) (ex_config []) ''new'' [] None ex_world
       = (Inl (Exception ''No domains for certificate''), ex_world)
   \<and> make_cert (ex_env (ex_config [])) (ex_config []) ''site'' []
        (Some ''http://rancher/v1/certificates/1c1'') ex_world
       = (Inl (Exception ''No domains for certificate''), ex_world)"
proof -
  let ?env = "ex_env (ex_config [])"
  let ?bn = "index_by_name ex_rancher_certs"
  let ?absent = "(0 :: int, ''new'', [] :: string list, None :: string option)"
  let ?expiring = "(10 :: int, ''site'', [] :: string list, Some ''http://rancher/v1/certificates/1c1'')"
  have a1: "domains ex_nodomains = []" by code_simp
  have a2: "?bn (name ex_nodomains) = Some (ex_rancher_certs ! 0)" by code_simp
  have b1: "check_loop ?env 0 ?bn [ex_new_nodomains, ex_nodomains] [] = Inr [?absent, ?expiring]"
    by code_simp
  have b2: "?absent \<in> set [?absent, ?expiring]" "?expiring \<in> set [?absent, ?expiring]"
    by simp_all
  have b3: "item_domains ?absent = []" "item_domains ?expiring = []"
    by (simp_all add: item_domains_def)
  have parse: "strptime ?env (expiresAt (ex_rancher_certs ! 0)) ''%a %b %d %H:%M:%S %Z %Y''
      = Inr (10 * day)" by code_simp
  have rd: "(10 * day - 0) div day = 10" by code_simp
  note inst = empty_domains_never_domain_gap
    [of "[''a.com'']" ex_nodomains ?bn "ex_rancher_certs ! 0" ?env 0 "[]" _ _ _ "ex_config []" ex_world]
  have one: "check_one ?env 0 ?bn ex_nodomains []
       = Inr [(10, ''site'', [], Some ''http://rancher/v1/certificates/1c1'')]"
    using inst [THEN conjunct2, THEN conjunct1, THEN mp, OF conjI [OF a1 a2]] parse rd
    by (simp add: ex_nodomains_def ex_rancher_certs_def)
  note absent = empty_domains_never_domain_gap
    [of "[''a.com'']" ex_nodomains ?bn "ex_rancher_certs ! 0" ?env 0 "[]"
        "[ex_new_nodomains, ex_nodomains]" "[?absent, ?expiring]" ?absent "ex_config []" ex_world,
     THEN conjunct2, THEN conjunct2, THEN mp, OF conjI [OF b1 conjI [OF b2(1) b3(1)]],
     THEN conjunct1]
  note expiring = empty_domains_never_domain_gap
    [of "[''a.com'']" ex_nodomains ?bn "ex_rancher_certs ! 0" ?env 0 "[]"
        "[ex_new_nodomains, ex_nodomains]" "[?absent, ?expiring]" ?expiring "ex_config []" ex_world,
     THEN conjunct2, THEN conjunct2, THEN mp, OF conjI [OF b1 conjI [OF b2(2) b3(2)]],
     THEN conjunct1]
  show ?thesis using a1 a2 b1 b3 one absent expiring
    by (simp add: item_name_def item_domains_def item_link_def)
qed

subsection \<open>Order of the work queue\<close>

lemma urgency_mono: "(x :: work_item) \<le> y \<Longrightarrow> urgency x \<le> urgency y"
  by (auto simp: urgency_def less_eq_prod_def)

lemma tie_name_mono:
  "(x :: work_item) \<le> y \<Longrightarrow> urgency x = urgency y \<Longrightarrow> item_name x \<le> item_name y"
  by (auto simp: urgency_def item_name_def less_eq_prod_def)

lemma tie_domains_mono:
  "(x :: work_item) \<le> y \<Longrightarrow> urgency x = urgency y \<Longrightarrow> item_name x = item_name y
    \<Longrightarrow> item_domains x \<le> item_domains y"
  by (auto simp: urgency_def item_name_def item_domains_def less_eq_prod_def)

lemma link_of_name:
  assumes "check_loop env now bn cs [] = Inr to_do" and "x \<in> set to_do"
  shows "item_link x = map_option links_self (bn (item_name x))"
proof -
  from check_loop_item [OF assms] obtain c where "x \<in> set (enqueued env now bn c)" by blast
  from enqueued_cases [OF this] show ?thesis
    by (auto simp: item_link_def item_name_def)
qed

text \<open>
  C2, as stated, fails. With the desired certificates \<open>b-site\<close> and \<open>a-site\<close> in this
  order in the config and neither of them in Rancher, both get urgency 0, and
  \<^verbatim>\<open>to_do.sort()\<close> puts \<open>a-site\<close> first: the certificate for \<open>a-site\<close> is requested and
  saved before the one for \<open>b-site\<close>, which is earlier in the config.
\<close>

theorem config_order_ties_counterexample:
  "certs (ex_config [ex_b, ex_a]) = [ex_b, ex_a]
   \<and> check_loop (ex_env (ex_config [ex_b, ex_a])) 0 (index_by_name ex_rancher_certs)
        [ex_b, ex_a] []
      = Inr [(0, ''b-site'', [''b.example.org''], None), (0, ''a-site'', [''a.example.org''], None)]
   \<and> sort [(0 :: int, ''b-site'', [''b.example.org''], None :: string option),
            (0, ''a-site'', [''a.example.org''], None)]
      = [(0, ''a-site'', [''a.example.org''], None), (0, ''b-site'', [''b.example.org''], None)]
   \<and> fst (check_certs (ex_env (ex_config [ex_b, ex_a])) (ex_config [ex_b, ex_a]) ex_world) = Inr 2
   \<and> trace (snd (check_certs (ex_env (ex_config [ex_b, ex_a])) (ex_config [ex_b, ex_a]) ex_world))
      = [Requests_get ''http://rancher/v1/certificates'' (''ak'', ''sk''),
         Openssl [''genrsa'', ''-out'', ''/tmp/uuid0'', ''2048''] [None, None, None, None],
         Openssl [''req'', ''-new'', ''-sha256'', ''-key'', ''/tmp/uuid0'', ''-out'',
                  ''/tmp/uuid1'', ''-subj'', ''/CN=a.example.org'']
           [None, None, None, None, Some ''PRIVATE KEY'', None, None, None, None],
         Acme_get_crt ''/keys/account.key'' ''/tmp/uuid1'' ''/var/www/challenges''
           (Directory_url ''https://acme.example/directory''),
         Requests_post ''http://rancher/v1/certificates''
           [(''key'', ''PRIVATE KEY''), (''cert'', ''CERTIFICATE''), (''name'', ''a-site'')]
           (''ak'', ''sk''),
         Openssl [''genrsa'', ''-out'', ''/tmp/uuid2'', ''2048''] [None, None, None, None],
         Openssl [''req'', ''-new'', ''-sha256'', ''-key'', ''/tmp/uuid2'', ''-out'',
                  ''/tmp/uuid3'', ''-subj'', ''/CN=b.example.org'']
           [None, None, None, None, Some ''PRIVATE KEY'', None, None, None, None],
         Acme_get_crt ''/keys/account.key'' ''/tmp/uuid3'' ''/var/www/challenges''
           (Directory_url ''https://acme.example/directory''),
         Requests_post ''http://rancher/v1/certificates''
           [(''key'', ''PRIVATE KEY''), (''cert'', ''CERTIFICATE''), (''name'', ''b-site'')]
           (''ak'', ''sk'')]"
  by code_simp

text \<open>
  C2, amended. The queue that \<^verbatim>\<open>check_certs\<close> processes is the sorted \<^verbatim>\<open>to_do\<close>: the
  same items, ascending by urgency; of two items with equal urgency the one with the
  smaller name (by code points) comes first, and for equal names the one with the
  smaller domain list; such items then have the same link, so that the links, which
  Python could not compare when one is \<^verbatim>\<open>None\<close>, never decide.
\<close>

theorem work_queue_order:
  assumes "rancher_get_certs env w = (Inr rcs, w1)"
    and "check_loop env (datetime_now env w) (index_by_name rcs) (certs config) [] = Inr to_do"
    and "queue = sort to_do"
  shows "check_certs env config w
           = bind (make_certs env config queue) (\<lambda>_. return (int (length queue))) w1
    \<and> mset queue = mset to_do
    \<and> sorted (map urgency queue)
    \<and> (\<forall>i j. i < j \<and> j < length queue \<and> urgency (queue ! i) = urgency (queue ! j) \<longrightarrow>
          item_name (queue ! i) \<le> item_name (queue ! j)
          \<and> (item_name (queue ! i) = item_name (queue ! j) \<longrightarrow>
               item_domains (queue ! i) \<le> item_domains (queue ! j)
               \<and> item_link (queue ! i) = item_link (queue ! j)))"
proof -
  have run: "check_certs env config w
           = bind (make_certs env config queue) (\<lambda>_. return (int (length queue))) w1"
    using assms by (simp add: check_certs_def bind_def ask_def Let_def)
  have perm: "mset queue = mset to_do" by (simp add: assms(3))
  have srt: "sorted queue" by (simp add: assms(3))
  then have urg: "sorted (map urgency queue)"
    by (simp add: sorted_map sorted_wrt_mono_rel [of queue "(\<le>)"] urgency_mono)
  have ties: "item_name (queue ! i) \<le> item_name (queue ! j)
          \<and> (item_name (queue ! i) = item_name (queue ! j) \<longrightarrow>
               item_domains (queue ! i) \<le> item_domains (queue ! j)
               \<and> item_link (queue ! i) = item_link (queue ! j))"
    if "i < j" "j < length queue" "urgency (queue ! i) = urgency (queue ! j)" for i j
  proof -
    from srt that have le: "queue ! i \<le> queue ! j"
      by (simp add: sorted_nth_mono)
    have "queue ! i \<in> set to_do" "queue ! j \<in> set to_do"
      using that perm by (metis nth_mem order.strict_trans set_mset_mset)+
    then have "item_link (queue ! i) = map_option links_self (index_by_name rcs (item_name (queue ! i)))"
      "item_link (queue ! j) = map_option links_self (index_by_name rcs (item_name (queue ! j)))"
      using link_of_name [OF assms(2)] by blast+
    with le that(3) show ?thesis
      by (simp add: tie_name_mono tie_domains_mono)
  qed
  show ?thesis using run perm urg ties by blast
qed

theorem work_queue_order_witness:
  "fst (rancher_get_certs (ex_env ex_mixed) ex_world) = Inr ex_rancher_certs
   \<and> check_loop (ex_env ex_mixed) (datetime_now (ex_env ex_mixed) ex_world)
        (index_by_name ex_rancher_certs) (certs ex_mixed) []
       = Inr [(10, ''site'', [''a.com'', ''www.a.com''], Some ''http://rancher/v1/certificates/1c1''),
              (0, ''new'', [''n.com''], None),
              (- 1, ''expired'', [''e.com''], Some ''http://rancher/v1/certificates/1c5''),
              (0, ''gap'', [''g.com'', ''www.g.com''], Some ''http://rancher/v1/certificates/1c4'')]
   \<and> [(- 1 :: int, ''expired'', [''e.com''], Some ''http://rancher/v1/certificates/1c5''),
       (0, ''gap'', [''g.com'', ''www.g.com''], Some ''http://rancher/v1/certificates/1c4''),
       (0, ''new'', [''n.com''], None),
       (10, ''site'', [''a.com'', ''www.a.com''], Some ''http://rancher/v1/certificates/1c1'')]
      = sort [(10, ''site'', [''a.com'', ''www.a.com''], Some ''http://rancher/v1/certificates/1c1''),
              (0, ''new'', [''n.com''], None),
              (- 1, ''expired'', [''e.com''], Some ''http://rancher/v1/certificates/1c5''),
              (0, ''gap'', [''g.com'', ''www.g.com''], Some ''http://rancher/v1/certificates/1c4'')]
   \<and> check_certs (ex_env ex_mixed) ex_mixed ex_world
      = bind (make_certs (ex_env ex_mixed) ex_mixed
          [(- 1, ''expired'', [''e.com''], Some ''http://rancher/v1/certificates/1c5''),
           (0, ''gap'', [''g.com'', ''www.g.com''], Some ''http://rancher/v1/certificates/1c4''),
           (0, ''new'', [''n.com''], None),
           (10, ''site'', [''a.com'', ''www.a.com''], Some ''http://rancher/v1/certificates/1c1'')])
          (\<lambda>_. return 4) (snd (rancher_get_certs (ex_env ex_mixed) ex_world))
   \<and> sorted (map urgency
        [(- 1, ''expired'', [''e.com''], Some ''http://rancher/v1/certificates/1c5''),
         (0, ''gap'', [''g.com'', ''www.g.com''], Some ''http://rancher/v1/certificates/1c4''),
         (0, ''new'', [''n.com''], None),
         (10, ''site'', [''a.com'', ''www.a.com''], Some ''http://rancher/v1/certificates/1c1'')])
   \<and> item_name (0, ''gap'', [''g.com'', ''www.g.com''], Some ''http://rancher/v1/certificates/1c4'')
      \<le> item_name (0, ''new'', [''n.com''], None)"
proof -
  let ?env = "ex_env ex_mixed"
  let ?to_do = "[(10 :: int, ''site'', [''a.com'', ''www.a.com''], Some ''http://rancher/v1/certificates/1c1''),
              (0, ''new'', [''n.com''], None),
              (- 1, ''expired'', [''e.com''], Some ''http://rancher/v1/certificates/1c5''),
              (0, ''gap'', [''g.com'', ''www.g.com''], Some ''http://rancher/v1/certificates/1c4'')]"
  let ?queue = "[(- 1 :: int, ''expired'', [''e.com''], Some ''http://rancher/v1/certificates/1c5''),
       (0, ''gap'', [''g.com'', ''www.g.com''], Some ''http://rancher/v1/certificates/1c4''),
       (0, ''new'', [''n.com''], None),
       (10, ''site'', [''a.com'', ''www.a.com''], Some ''http://rancher/v1/certificates/1c1'')]"
  have g: "fst (rancher_get_certs ?env ex_world) = Inr ex_rancher_certs"
    by code_simp
  then have h1: "rancher_get_certs ?env ex_world
      = (Inr ex_rancher_certs, snd (rancher_get_certs ?env ex_world))"
    by (simp add: prod_eq_iff)
  have h2: "check_loop ?env (datetime_now ?env ex_world) (index_by_name ex_rancher_certs)
      (certs ex_mixed) [] = Inr ?to_do"
    by code_simp
  have h3: "?queue = sort ?to_do"
    by code_simp
  note order = work_queue_order [OF h1 h2 h3]
  have run: "check_certs ?env ex_mixed ex_world
      = bind (make_certs ?env ex_mixed ?queue) (\<lambda>_. return 4)
          (snd (rancher_get_certs ?env ex_world))"
    using order by simp
  have urg: "sorted (map urgency ?queue)"
    using order by blast
  have "urgency (?queue ! 1) = urgency (?queue ! 2)"
    by (simp add: urgency_def)
  with order have "item_name (?queue ! 1) \<le> item_name (?queue ! 2)"
    by (metis (no_types, lifting) one_less_numeral_iff semiring_norm(76) length_Cons list.size(3)
        numeral_2_eq_2 lessI Suc_less_eq zero_less_Suc)
  then have tie: "item_name (0 :: int, ''gap'', [''g.com'', ''www.g.com''], Some ''http://rancher/v1/certificates/1c4'')
      \<le> item_name (0 :: int, ''new'', [''n.com''], None :: string option)"
    by simp
  show ?thesis using g h2 h3 run urg tie by blast
qed

subsection \<open>Unparsable expiry\<close>

lemma check_loop_error:
  assumes "c \<in> set cs" and "check_one env now bn c [] = Inl e"
  shows "\<exists>e' c'. c' \<in> set cs \<and> check_one env now bn c' [] = Inl e' \<and> check_loop env now bn cs q = Inl e'"
  using assms
proof (induction cs arbitrary: q)
  case Nil
  then show ?case by simp
next
  case (Cons a cs)
  show ?case
  proof (cases "check_one env now bn a q")
    case (Inl e1)
    then have "check_one env now bn a [] = Inl e1"
      by (auto simp: check_one_def Let_def split: option.splits sum.splits if_splits)
    with Inl show ?thesis by auto
  next
    case (Inr q1)
    have "c \<noteq> a"
    proof
      assume "c = a"
      with Cons.prems(2) have "check_one env now bn a [] = Inl e" by simp
      then have "check_one env now bn a q = Inl e"
        by (auto simp: check_one_def Let_def split: option.splits sum.splits if_splits)
      with Inr show False by simp
    qed
    with Cons.prems have "c \<in> set cs" by simp
    from Cons.IH [OF this Cons.prems(2), of q1] Inr show ?thesis by auto
  qed
qed

lemma rancher_get_certs_world:
  assumes "rancher_get_certs env w = (Inr rcs, w1)"
  shows "\<exists>url auth. w1 = w\<lparr>trace := trace w @ [Requests_get url auth]\<rparr>"
  using assms
  by (auto simp: rancher_get_certs_def bind_def os_environ_def raise_def return_def emit_def
      ask_def split: option.splits sum.splits if_splits prod.splits)

text \<open>
  C8. If a desired certificate is matched by name and covered and the expiry of the
  observed certificate does not parse, \<^verbatim>\<open>check_certs\<close> raises the parse error of an
  observed certificate, and the world it leaves is the one right after the GET request
  to Rancher: no key, no CSR, no signing, no save, no work item is processed.
\<close>

theorem unparsable_expiry_aborts_pass:
  assumes "rancher_get_certs env w = (Inr rcs, w1)"
    and "c \<in> set (certs config)"
    and "index_by_name rcs (name c) = Some rc"
    and "contains_sublist (subjectAlternativeNames rc) (domains c)"
    and "strptime env (expiresAt rc) ''%a %b %d %H:%M:%S %Z %Y'' = Inl e"
  shows "\<exists>e' url auth. check_certs env config w = (Inl e', w1)
      \<and> w1 = w\<lparr>trace := trace w @ [Requests_get url auth]\<rparr>
      \<and> (\<exists>rc'. rc' \<in> set rcs \<and> strptime env (expiresAt rc') ''%a %b %d %H:%M:%S %Z %Y'' = Inl e')"
proof -
  let ?bn = "index_by_name rcs"
  let ?now = "datetime_now env w"
  have "check_one env ?now ?bn c [] = Inl e"
    using assms(3-5) by (simp add: check_one_def Let_def)
  from check_loop_error [OF assms(2) this, of "[]"] obtain e' c' where
    c': "c' \<in> set (certs config)" "check_one env ?now ?bn c' [] = Inl e'"
    and loop: "check_loop env ?now ?bn (certs config) [] = Inl e'" by blast
  from c'(2) obtain rc' where "?bn (name c') = Some rc'"
    "strptime env (expiresAt rc') ''%a %b %d %H:%M:%S %Z %Y'' = Inl e'"
    by (auto simp: check_one_def Let_def split: option.splits sum.splits if_splits)
  then have rc': "rc' \<in> set rcs" "strptime env (expiresAt rc') ''%a %b %d %H:%M:%S %Z %Y'' = Inl e'"
    using index_by_name_Some by blast+
  have "check_certs env config w = (Inl e', w1)"
    using assms(1) loop by (simp add: check_certs_def bind_def ask_def Let_def)
  with rancher_get_certs_world [OF assms(1)] rc' show ?thesis by blast
qed

theorem unparsable_expiry_aborts_pass_witness:
  "fst (rancher_get_certs (ex_env ex_with_broken) ex_world) = Inr ex_rancher_certs
   \<and> ex_broken \<in> set (certs ex_with_broken)
   \<and> index_by_name ex_rancher_certs (name ex_broken) = Some (ex_rancher_certs ! 5)
   \<and> contains_sublist (subjectAlternativeNames (ex_rancher_certs ! 5)) (domains ex_broken)
   \<and> strptime (ex_env ex_with_broken) (expiresAt (ex_rancher_certs ! 5))
        ''%a %b %d %H:%M:%S %Z %Y''
      = Inl (ValueError
          ''time data 2026-01-11T00:00:00Z does not match format %a %b %d %H:%M:%S %Z %Y'')
   \<and> fst (check_certs (ex_env ex_with_broken) ex_with_broken ex_world)
      = Inl (ValueError
          ''time data 2026-01-11T00:00:00Z does not match format %a %b %d %H:%M:%S %Z %Y'')
   \<and> snd (check_certs (ex_env ex_with_broken) ex_with_broken ex_world)
      = snd (rancher_get_certs (ex_env ex_with_broken) ex_world)
   \<and> trace (snd (check_certs (ex_env ex_with_broken) ex_with_broken ex_world))
      = [Requests_get ''http://rancher/v1/certificates'' (''ak'', ''sk'')]"
proof -
  let ?env = "ex_env ex_with_broken"
  let ?e = "ValueError
          ''time data 2026-01-11T00:00:00Z does not match format %a %b %d %H:%M:%S %Z %Y''"
  have g: "fst (rancher_get_certs ?env ex_world) = Inr ex_rancher_certs"
    by code_simp
  then have h1: "rancher_get_certs ?env ex_world
      = (Inr ex_rancher_certs, snd (rancher_get_certs ?env ex_world))"
    by (simp add: prod_eq_iff)
  have h2: "ex_broken \<in> set (certs ex_with_broken)"
    by (simp add: ex_with_broken_def ex_config_def)
  have h3: "index_by_name ex_rancher_certs (name ex_broken) = Some (ex_rancher_certs ! 5)"
    by code_simp
  have h4: "contains_sublist (subjectAlternativeNames (ex_rancher_certs ! 5)) (domains ex_broken)"
    by code_simp
  have h5: "strptime ?env (expiresAt (ex_rancher_certs ! 5)) ''%a %b %d %H:%M:%S %Z %Y'' = Inl ?e"
    by code_simp
  from unparsable_expiry_aborts_pass [OF h1 h2 h3 h4 h5]
  obtain e' where r: "check_certs ?env ex_with_broken ex_world
      = (Inl e', snd (rancher_get_certs ?env ex_world))"
    by blast
  have v: "fst (check_certs ?env ex_with_broken ex_world) = Inl ?e"
    by code_simp
  have t: "trace (snd (rancher_get_certs ?env ex_world))
      = [Requests_get ''http://rancher/v1/certificates'' (''ak'', ''sk'')]"
    by code_simp
  show ?thesis using g h2 h3 h4 h5 r v t by simp
qed

subsection \<open>Statements and the events they add\<close>

lemma bindE:
  assumes "bind m f w = (r, w')"
  obtains (raised) e where "m w = (Inl e, w')" "r = Inl e"
    | (returned) x w1 where "m w = (Inr x, w1)" "f x w1 = (r, w')"
  using assms by (auto simp: bind_def split: prod.splits sum.splits)

lemma keepsD: "keeps P p \<Longrightarrow> p w = (r, w') \<Longrightarrow> filter P (trace w') = filter P (trace w)"
  by (auto simp: keeps_def dest: spec [of _ w])

lemma keeps_bind: "keeps P m \<Longrightarrow> (\<And>x. keeps P (f x)) \<Longrightarrow> keeps P (bind m f)"
  by (auto simp: keeps_def bind_def split: prod.splits sum.splits) (metis snd_conv)+

lemma keeps_return: "keeps P (return x)"
  by (simp add: keeps_def return_def)

lemma keeps_raise: "keeps P (raise e)"
  by (simp add: keeps_def raise_def)

lemma keeps_ask: "keeps P (ask g)"
  by (simp add: keeps_def ask_def)

lemma keeps_emit: "\<not> P ev \<Longrightarrow> keeps P (emit ev)"
  by (simp add: keeps_def emit_def)

lemma keeps_os_environ: "keeps P (os_environ env k)"
  by (simp add: os_environ_def keeps_return keeps_raise split: option.splits)

lemma keeps_uuid4: "keeps P (uuid4 env)"
  by (simp add: keeps_def uuid4_def)

lemma keeps_open_read: "keeps P (open_read path)"
  by (simp add: keeps_def open_read_def split: option.splits)

lemma keeps_open_write: "keeps P (open_write path s)"
  by (simp add: keeps_def open_write_def)

lemma keeps_os_remove: "keeps P (os_remove path)"
  by (simp add: keeps_def os_remove_def split: option.splits)

lemma keeps_openssl: "(\<And>ins. \<not> P (Openssl args ins)) \<Longrightarrow> keeps P (openssl env args)"
  by (simp add: keeps_def openssl_def Let_def)

lemma keeps_get_crt: "\<not> P (Acme_get_crt a c d k) \<Longrightarrow> keeps P (get_crt env a c d k)"
  by (simp add: keeps_def get_crt_def Let_def split: prod.splits)

lemmas keeps_prims = keeps_return keeps_raise keeps_ask keeps_emit keeps_os_environ keeps_uuid4
  keeps_open_read keeps_open_write keeps_os_remove keeps_openssl keeps_get_crt

lemma keeps_rancher_get_certs:
  "(\<And>u a. \<not> P (Requests_get u a)) \<Longrightarrow> keeps P (rancher_get_certs env)"
  unfolding rancher_get_certs_def
  by (intro keeps_bind keeps_prims) (simp_all add: keeps_prims)

lemma keeps_rancher_save_cert:
  "(\<And>u p a. \<not> P (Requests_post u p a)) \<Longrightarrow> (\<And>u p a. \<not> P (Requests_put u p a))
   \<Longrightarrow> keeps P (rancher_save_cert env nm k c link)"
  unfolding rancher_save_cert_def Let_def
  by (cases link) (auto intro!: keeps_bind keeps_prims)

text \<open>The part of \<^verbatim>\<open>make_cert\<close> after the CSR branch makes no CSR request.\<close>

lemma keeps_csr_tail:
  "keeps is_csr_request
     (bind (os_remove private_key_file) (\<lambda>_.
      bind (case ca config of
              Some c \<Rightarrow> return (CA c)
            | None \<Rightarrow>
                (case ca_directory config of
                   Some d \<Rightarrow> return (Directory_url d)
                 | None \<Rightarrow> raise (KeyError ''ca_directory''))) (\<lambda>kwargs.
      bind (get_crt env (account_key config) csr_file (acme_dir config) kwargs) (\<lambda>cert.
      bind (os_remove csr_file) (\<lambda>_.
      rancher_save_cert env nm private_key cert link)))))"
  by (auto intro!: keeps_bind keeps_prims keeps_rancher_save_cert split: option.splits)

lemma openssl_req:
  assumes "openssl env (''req'' # args) w = (r, w')"
  shows "filter is_csr_request (trace w')
    = filter is_csr_request (trace w) @ [Openssl (''req'' # args) (map (files w) (''req'' # args))]"
  using assms by (auto simp: openssl_def Let_def split: if_splits)

lemma openssl_genrsa:
  assumes "openssl env (''genrsa'' # args) w = (r, w')"
  shows "filter is_csr_request (trace w') = filter is_csr_request (trace w)"
  using assms by (auto simp: openssl_def Let_def split: if_splits)

lemma join_dns: "doms \<noteq> [] \<Longrightarrow>
  ''DNS:'' @ join '',DNS:'' doms = join '','' (map ((@) ''DNS:'') doms)"
  by (induction doms rule: induct_list012) auto

lemma openssl_genrsa_world:
  assumes "openssl env args w = (r, w')"
  shows "uuids_drawn w' = uuids_drawn w"
    and "w' = snd (openssl env args w)"
  using assms by (auto simp: openssl_def Let_def split: if_splits)

lemma open_read_world:
  assumes "open_read path w = (r, w')"
  shows "w' = w" and "r = Inr s \<Longrightarrow> files w path = Some s"
  using assms by (auto simp: open_read_def split: option.splits)

subsection \<open>CSR construction\<close>

lemma csr_single_domain:
  assumes run: "make_cert env config nm [d] link w = (r, w')"
    and pk: "private_key_file = ''/tmp/'' @ uuid4_hex env (uuids_drawn w)"
    and cf: "csr_file = ''/tmp/'' @ uuid4_hex env (Suc (uuids_drawn w))"
  shows "\<exists>reqs. filter is_csr_request (trace w') = filter is_csr_request (trace w) @ reqs
     \<and> (reqs = [] \<or> (\<exists>ins. reqs = [Openssl [''req'', ''-new'', ''-sha256'', ''-key'',
            private_key_file, ''-out'', csr_file, ''-subj'', ''/CN='' @ d] ins]))
     \<and> (r = Inr () \<longrightarrow> reqs \<noteq> [])"
proof -
  let ?w2 = "w\<lparr>uuids_drawn := Suc (Suc (uuids_drawn w))\<rparr>"
  let ?args = "[''req'', ''-new'', ''-sha256'', ''-key'', private_key_file, ''-out'', csr_file,
     ''-subj'', ''/CN='' @ d]"
  let ?F = "filter is_csr_request"
  from run have steps:
    "bind (openssl env [''genrsa'', ''-out'', private_key_file, str_int (key_length config)]) (\<lambda>_.
     bind (open_read private_key_file) (\<lambda>private_key.
     bind (bind (openssl env ?args) (\<lambda>_. return ())) (\<lambda>_.
     bind (os_remove private_key_file) (\<lambda>_.
     bind (case ca config of
             Some c \<Rightarrow> return (CA c)
           | None \<Rightarrow>
               (case ca_directory config of
                  Some d \<Rightarrow> return (Directory_url d)
                | None \<Rightarrow> raise (KeyError ''ca_directory''))) (\<lambda>kwargs.
     bind (get_crt env (account_key config) csr_file (acme_dir config) kwargs) (\<lambda>cert.
     bind (os_remove csr_file) (\<lambda>_.
     rancher_save_cert env nm private_key cert link))))))) ?w2 = (r, w')"
    by (simp add: make_cert_def pk cf bind_def [of "uuid4 env"] uuid4_def Let_def)
  from steps show ?thesis
  proof (cases rule: bindE)
    case (raised e)
    from openssl_genrsa [OF raised(1)] raised(2) show ?thesis by simp
  next
    case (returned out w3)
    from openssl_genrsa [OF returned(1)] have t3: "?F (trace w3) = ?F (trace w)" by simp
    from returned(2) show ?thesis
    proof (cases rule: bindE)
      case (raised e)
      then have "?F (trace w') = ?F (trace w3)"
        using keepsD [OF keeps_open_read] by blast
      with t3 raised(2) show ?thesis by simp
    next
      case (returned private_key w4)
      then have t4: "?F (trace w4) = ?F (trace w3)"
        using keepsD [OF keeps_open_read] by blast
      from returned(2) show ?thesis
      proof (cases rule: bindE)
        case (raised e)
        then have "openssl env ?args w4 = (Inl e, w')"
          by (auto simp: return_def elim!: bindE)
        from openssl_req [OF this] t3 t4 show ?thesis
          using raised(2) by auto
      next
        case (returned u w5)
        then obtain out5 where "openssl env ?args w4 = (Inr out5, w5)"
          by (auto simp: return_def elim!: bindE)
        from openssl_req [OF this] t3 t4
        have t5: "?F (trace w5) = ?F (trace w) @ [Openssl ?args (map (files w4) ?args)]"
          by simp
        from keepsD [OF keeps_csr_tail returned(2)] have "?F (trace w') = ?F (trace w5)" .
        with t5 show ?thesis by auto
      qed
    qed
  qed
qed

lemma csr_multi_domain:
  assumes run: "make_cert env config nm doms link w = (r, w')"
    and len: "2 \<le> length doms"
    and pk: "private_key_file = ''/tmp/'' @ uuid4_hex env (uuids_drawn w)"
    and cf: "csr_file = ''/tmp/'' @ uuid4_hex env (Suc (uuids_drawn w))"
    and sf: "csr_config_file = ''/tmp/'' @ uuid4_hex env (Suc (Suc (uuids_drawn w)))"
    and ag: "after_genrsa = snd (openssl env
        [''genrsa'', ''-out'', private_key_file, str_int (key_length config)]
        (w\<lparr>uuids_drawn := Suc (Suc (uuids_drawn w))\<rparr>))"
  shows "\<exists>reqs. filter is_csr_request (trace w') = filter is_csr_request (trace w) @ reqs
     \<and> (reqs = [] \<or> (\<exists>ins base. reqs = [Openssl [''req'', ''-new'', ''-sha256'', ''-key'',
            private_key_file, ''-out'', csr_file, ''-subj'', ''/'', ''-reqexts'', ''SAN'',
            ''-config'', csr_config_file] ins]
          \<and> files after_genrsa ''/etc/ssl/openssl.cnf'' = Some base
          \<and> ins ! 12 = Some (base @ ''\<newline>[SAN]\<newline>subjectAltName=''
               @ join '','' (map ((@) ''DNS:'') doms) @ ''\<newline>'')))
     \<and> (r = Inr () \<longrightarrow> reqs \<noteq> [])"
proof -
  let ?w2 = "w\<lparr>uuids_drawn := Suc (Suc (uuids_drawn w))\<rparr>"
  let ?args = "[''req'', ''-new'', ''-sha256'', ''-key'', private_key_file, ''-out'', csr_file,
     ''-subj'', ''/'', ''-reqexts'', ''SAN'', ''-config'', csr_config_file]"
  let ?content = "\<lambda>base. base @ ''\<newline>[SAN]\<newline>subjectAltName=DNS:'' @ join '',DNS:'' doms
     @ ''\<newline>''"
  let ?F = "filter is_csr_request"
  from len have ne: "doms \<noteq> []" "\<not> length doms < 1" "length doms \<noteq> 1" by auto
  have content: "?content base = base @ ''\<newline>[SAN]\<newline>subjectAltName=''
               @ join '','' (map ((@) ''DNS:'') doms) @ ''\<newline>''" for base
    using join_dns [OF ne(1)] by simp
  note jd = join_dns [OF ne(1), simplified]
  from run ne have steps:
    "bind (openssl env [''genrsa'', ''-out'', private_key_file, str_int (key_length config)]) (\<lambda>_.
     bind (open_read private_key_file) (\<lambda>private_key.
     bind (bind (uuid4 env) (\<lambda>u3.
           bind (open_read ''/etc/ssl/openssl.cnf'') (\<lambda>openssl_config.
           bind (open_write (''/tmp/'' @ u3) (?content openssl_config)) (\<lambda>_.
           bind (openssl env [''req'', ''-new'', ''-sha256'', ''-key'', private_key_file,
                   ''-out'', csr_file, ''-subj'', ''/'', ''-reqexts'', ''SAN'', ''-config'',
                   ''/tmp/'' @ u3]) (\<lambda>_.
           os_remove (''/tmp/'' @ u3)))))) (\<lambda>_.
     bind (os_remove private_key_file) (\<lambda>_.
     bind (case ca config of
             Some c \<Rightarrow> return (CA c)
           | None \<Rightarrow>
               (case ca_directory config of
                  Some d \<Rightarrow> return (Directory_url d)
                | None \<Rightarrow> raise (KeyError ''ca_directory''))) (\<lambda>kwargs.
     bind (get_crt env (account_key config) csr_file (acme_dir config) kwargs) (\<lambda>cert.
     bind (os_remove csr_file) (\<lambda>_.
     rancher_save_cert env nm private_key cert link))))))) ?w2 = (r, w')"
    by (simp add: make_cert_def pk cf bind_def [of "uuid4 env" _ w]
        bind_def [of "uuid4 env" _ "w\<lparr>uuids_drawn := Suc (uuids_drawn w)\<rparr>"] uuid4_def Let_def)
  from steps show ?thesis
  proof (cases rule: bindE)
    case (raised e)
    from openssl_genrsa [OF raised(1)] raised(2) show ?thesis by simp
  next
    case (returned out w3)
    from openssl_genrsa [OF returned(1)] have t3: "?F (trace w3) = ?F (trace w)" by simp
    from openssl_genrsa_world [OF returned(1)]
    have u3: "uuids_drawn w3 = Suc (Suc (uuids_drawn w))" and w3: "w3 = after_genrsa"
      by (simp_all add: ag)
    from returned(2) show ?thesis
    proof (cases rule: bindE)
      case (raised e)
      then have "?F (trace w') = ?F (trace w3)"
        using keepsD [OF keeps_open_read] by blast
      with t3 raised(2) show ?thesis by simp
    next
      case (returned private_key w4)
      from open_read_world(1) [OF returned(1)] have w4: "w4 = w3" .
      have csr: "\<exists>reqs. ?F (trace w6) = ?F (trace w) @ reqs
          \<and> (reqs = [] \<or> (\<exists>ins base. reqs = [Openssl ?args ins]
               \<and> files after_genrsa ''/etc/ssl/openssl.cnf'' = Some base
               \<and> ins ! 12 = Some (?content base)))
          \<and> (r6 = Inr () \<longrightarrow> reqs \<noteq> [])"
        if br: "bind (uuid4 env) (\<lambda>u3.
           bind (open_read ''/etc/ssl/openssl.cnf'') (\<lambda>openssl_config.
           bind (open_write (''/tmp/'' @ u3) (?content openssl_config)) (\<lambda>_.
           bind (openssl env [''req'', ''-new'', ''-sha256'', ''-key'', private_key_file,
                   ''-out'', csr_file, ''-subj'', ''/'', ''-reqexts'', ''SAN'', ''-config'',
                   ''/tmp/'' @ u3]) (\<lambda>_.
           os_remove (''/tmp/'' @ u3))))) w3 = (r6, w6)" for r6 w6
      proof -
        let ?w5 = "w3\<lparr>uuids_drawn := Suc (uuids_drawn w3)\<rparr>"
        from br have br': "bind (open_read ''/etc/ssl/openssl.cnf'') (\<lambda>openssl_config.
           bind (open_write csr_config_file (?content openssl_config)) (\<lambda>_.
           bind (openssl env ?args) (\<lambda>_.
           os_remove csr_config_file))) ?w5 = (r6, w6)"
          by (simp add: bind_def [of "uuid4 env"] uuid4_def u3 sf)
        from br' show ?thesis
        proof (cases rule: bindE)
          case (raised e)
          from open_read_world(1) [OF raised(1)] t3 raised(2) show ?thesis by simp
        next
          case (returned base w7)
          from open_read_world [OF returned(1)] have w7: "w7 = ?w5"
            and base: "files after_genrsa ''/etc/ssl/openssl.cnf'' = Some base"
            by (simp_all add: w3)
          let ?w8 = "w7\<lparr>files := (files w7)(csr_config_file \<mapsto> ?content base)\<rparr>"
          from returned(2) have "bind (openssl env ?args) (\<lambda>_. os_remove csr_config_file) ?w8
              = (r6, w6)"
            by (simp add: bind_def [of "open_write _ _"] open_write_def)
          then show ?thesis
          proof (cases rule: bindE)
            case (raised e)
            from openssl_req [OF raised(1)] t3 w7 raised(2) base show ?thesis by simp
          next
            case (returned out9 w9)
            from openssl_req [OF returned(1)] t3 w7
            have t9: "?F (trace w9) = ?F (trace w) @ [Openssl ?args (map (files ?w8) ?args)]"
              by simp
            from keepsD [OF keeps_os_remove returned(2)] have "?F (trace w6) = ?F (trace w9)" .
            with t9 base show ?thesis by simp
          qed
        qed
      qed
      from returned(2) show ?thesis
      proof (cases rule: bindE)
        case (raised e)
        from csr [OF raised(1) [unfolded w4]] raised(2) show ?thesis
          by (auto simp: jd)
      next
        case (returned u w10)
        from csr [OF returned(1) [unfolded w4]] obtain ins base where
          t10: "?F (trace w10) = ?F (trace w) @ [Openssl ?args ins]"
          and b: "files after_genrsa ''/etc/ssl/openssl.cnf'' = Some base"
            "ins ! 12 = Some (?content base)"
          by (cases u) auto
        from keepsD [OF keeps_csr_tail returned(2)] have "?F (trace w') = ?F (trace w10)" .
        with t10 b show ?thesis by (auto simp: jd)
      qed
    qed
  qed
qed

text \<open>
  C6. Whatever the outside world answers, \<^verbatim>\<open>make_cert\<close> makes at most one CSR request,
  and exactly one when it returns. For exactly one domain \<open>d\<close> the request is
  \<^verbatim>\<open>openssl req -new -sha256 -key <key> -out <csr> -subj /CN=d\<close>, with no extension
  option. For two or more domains the subject is \<^verbatim>\<open>/\<close>, the request names the section
  \<^verbatim>\<open>SAN\<close> with \<^verbatim>\<open>-reqexts\<close> and a config file with \<^verbatim>\<open>-config\<close>, and that file holds,
  at the moment of the call, the contents of \<^verbatim>\<open>/etc/ssl/openssl.cnf\<close> followed by the
  section \<^verbatim>\<open>[SAN]\<close> with \<^verbatim>\<open>subjectAltName=\<close> and the domains, each prefixed with
  \<^verbatim>\<open>DNS:\<close>, joined by commas in the given order.
\<close>

theorem csr_construction:
  assumes "make_cert env config nm doms link w = (r, w')"
    and "private_key_file = ''/tmp/'' @ uuid4_hex env (uuids_drawn w)"
    and "csr_file = ''/tmp/'' @ uuid4_hex env (Suc (uuids_drawn w))"
    and "csr_config_file = ''/tmp/'' @ uuid4_hex env (Suc (Suc (uuids_drawn w)))"
    and "after_genrsa = snd (openssl env
        [''genrsa'', ''-out'', private_key_file, str_int (key_length config)]
        (w\<lparr>uuids_drawn := Suc (Suc (uuids_drawn w))\<rparr>))"
  shows "(doms = [d] \<longrightarrow>
      (\<exists>reqs. filter is_csr_request (trace w') = filter is_csr_request (trace w) @ reqs
         \<and> (reqs = [] \<or> (\<exists>ins. reqs = [Openssl [''req'', ''-new'', ''-sha256'', ''-key'',
                private_key_file, ''-out'', csr_file, ''-subj'', ''/CN='' @ d] ins]))
         \<and> (r = Inr () \<longrightarrow> reqs \<noteq> [])))
    \<and> (2 \<le> length doms \<longrightarrow>
      (\<exists>reqs. filter is_csr_request (trace w') = filter is_csr_request (trace w) @ reqs
         \<and> (reqs = [] \<or> (\<exists>ins base. reqs = [Openssl [''req'', ''-new'', ''-sha256'', ''-key'',
                private_key_file, ''-out'', csr_file, ''-subj'', ''/'', ''-reqexts'', ''SAN'',
                ''-config'', csr_config_file] ins]
              \<and> files after_genrsa ''/etc/ssl/openssl.cnf'' = Some base
              \<and> ins ! 12 = Some (base @ ''\<newline>[SAN]\<newline>subjectAltName=''
                   @ join '','' (map ((@) ''DNS:'') doms) @ ''\<newline>'')))
         \<and> (r = Inr () \<longrightarrow> reqs \<noteq> [])))"
  using csr_single_domain [of env config nm d link w r w' private_key_file csr_file]
    csr_multi_domain [of env config nm doms link w r w' private_key_file csr_file csr_config_file
      after_genrsa]
    assms
  by blast

theorem csr_construction_witness:
  "''/tmp/uuid0'' = ''/tmp/'' @ uuid4_hex (ex_env (ex_config [])) (uuids_drawn ex_world)
   \<and> ''/tmp/uuid1'' = ''/tmp/'' @ uuid4_hex (ex_env (ex_config [])) (Suc (uuids_drawn ex_world))
   \<and> ''/tmp/uuid2''
      = ''/tmp/'' @ uuid4_hex (ex_env (ex_config [])) (Suc (Suc (uuids_drawn ex_world)))
   \<and> [''example.com''] = [''example.com'']
   \<and> fst (make_cert (ex_env (ex_config [])) (ex_config []) ''site'' [''example.com''] None
        ex_world) = Inr ()
   \<and> (\<exists>ins. filter is_csr_request (trace (snd (make_cert (ex_env (ex_config [])) (ex_config [])
          ''site'' [''example.com''] None ex_world)))
        = [Openssl [''req'', ''-new'', ''-sha256'', ''-key'', ''/tmp/uuid0'', ''-out'',
             ''/tmp/uuid1'', ''-subj'', ''/CN=example.com''] ins])
   \<and> 2 \<le> length [''a.com'', ''b.com'']
   \<and> fst (make_cert (ex_env (ex_config [])) (ex_config []) ''site'' [''a.com'', ''b.com''] None
        ex_world) = Inr ()
   \<and> (\<exists>ins. filter is_csr_request (trace (snd (make_cert (ex_env (ex_config [])) (ex_config [])
          ''site'' [''a.com'', ''b.com''] None ex_world)))
        = [Openssl [''req'', ''-new'', ''-sha256'', ''-key'', ''/tmp/uuid0'', ''-out'',
             ''/tmp/uuid1'', ''-subj'', ''/'', ''-reqexts'', ''SAN'', ''-config'',
             ''/tmp/uuid2''] ins]
        \<and> ins ! 12 = Some (''[req]'' @ ''\<newline>[SAN]\<newline>subjectAltName=''
              @ join '','' (map ((@) ''DNS:'') [''a.com'', ''b.com'']) @ ''\<newline>''))
   \<and> ''[req]'' @ ''\<newline>[SAN]\<newline>subjectAltName=''
         @ join '','' (map ((@) ''DNS:'') [''a.com'', ''b.com'']) @ ''\<newline>''
      = ''[req]\<newline>[SAN]\<newline>subjectAltName=DNS:a.com,DNS:b.com\<newline>''"
proof -
  let ?env = "ex_env (ex_config [])"
  let ?cfg = "ex_config []"
  let ?one = "make_cert ?env ?cfg ''site'' [''example.com''] None ex_world"
  let ?two = "make_cert ?env ?cfg ''site'' [''a.com'', ''b.com''] None ex_world"
  let ?ag = "snd (openssl ?env [''genrsa'', ''-out'', ''/tmp/uuid0'', str_int (key_length ?cfg)]
      (ex_world\<lparr>uuids_drawn := Suc (Suc (uuids_drawn ex_world))\<rparr>))"
  have pk: "''/tmp/uuid0'' = ''/tmp/'' @ uuid4_hex ?env (uuids_drawn ex_world)"
    by code_simp
  have cf: "''/tmp/uuid1'' = ''/tmp/'' @ uuid4_hex ?env (Suc (uuids_drawn ex_world))"
    by code_simp
  have sf: "''/tmp/uuid2'' = ''/tmp/'' @ uuid4_hex ?env (Suc (Suc (uuids_drawn ex_world)))"
    by code_simp
  have t0: "trace ex_world = []" by (simp add: ex_world_def)
  have base: "files ?ag ''/etc/ssl/openssl.cnf'' = Some ''[req]''"
    by code_simp
  have r1: "fst ?one = Inr ()" by code_simp
  have r2: "fst ?two = Inr ()" by code_simp
  have len: "2 \<le> length [''a.com'', ''b.com'']" by simp
  have content: "''[req]'' @ ''\<newline>[SAN]\<newline>subjectAltName=''
         @ join '','' (map ((@) ''DNS:'') [''a.com'', ''b.com'']) @ ''\<newline>''
      = ''[req]\<newline>[SAN]\<newline>subjectAltName=DNS:a.com,DNS:b.com\<newline>''"
    by code_simp
  have run1: "?one = (fst ?one, snd ?one)" by simp
  have run2: "?two = (fst ?two, snd ?two)" by simp
  have one: "\<exists>ins. filter is_csr_request (trace (snd ?one))
        = [Openssl [''req'', ''-new'', ''-sha256'', ''-key'', ''/tmp/uuid0'', ''-out'',
             ''/tmp/uuid1'', ''-subj'', ''/CN=example.com''] ins]"
    using csr_construction [of ?env ?cfg "''site''" "[''example.com'']" None ex_world
        "fst ?one" "snd ?one" "''/tmp/uuid0''" "''/tmp/uuid1''" "''/tmp/uuid2''" ?ag
        "''example.com''", OF run1 pk cf sf refl, THEN conjunct1, THEN mp, OF refl]
      r1 t0
    by auto
  have two: "\<exists>ins. filter is_csr_request (trace (snd ?two))
        = [Openssl [''req'', ''-new'', ''-sha256'', ''-key'', ''/tmp/uuid0'', ''-out'',
             ''/tmp/uuid1'', ''-subj'', ''/'', ''-reqexts'', ''SAN'', ''-config'',
             ''/tmp/uuid2''] ins]
        \<and> ins ! 12 = Some (''[req]'' @ ''\<newline>[SAN]\<newline>subjectAltName=''
              @ join '','' (map ((@) ''DNS:'') [''a.com'', ''b.com'']) @ ''\<newline>'')"
    using csr_construction [of ?env ?cfg "''site''" "[''a.com'', ''b.com'']" None ex_world
        "fst ?two" "snd ?two" "''/tmp/uuid0''" "''/tmp/uuid1''" "''/tmp/uuid2''" ?ag,
        OF run2 pk cf sf refl, THEN conjunct2, THEN mp, OF len]
      r2 t0 base
    by auto
  show ?thesis using pk cf sf r1 r2 len one two content by blast
qed

subsection \<open>Transient files\<close>

text \<open>
  C1 does not hold of the code: the three \<^verbatim>\<open>os.remove\<close> calls are only reached when
  every step before them has returned. Three runs of \<^verbatim>\<open>make_cert\<close>: a single domain
  too long for a common name, so that \<^verbatim>\<open>openssl req\<close> fails, leaves the private key
  file behind; a refused ACME challenge leaves the CSR file behind; a failing
  \<^verbatim>\<open>openssl req\<close> for two domains leaves the private key file and the SAN config file
  behind.
\<close>

theorem transient_files_left_behind:
  "length ex_long_domain = 66
   \<and> fst (make_cert (ex_env (ex_config [])) (ex_config []) ''site'' [ex_long_domain] None ex_world)
      = Inl (IOError ''OpenSSL Error: string too long'')
   \<and> files (snd (make_cert (ex_env (ex_config [])) (ex_config []) ''site'' [ex_long_domain] None
        ex_world)) ''/tmp/uuid0'' = Some ''PRIVATE KEY''
   \<and> fst (make_cert (ex_env_refused (ex_config [])) (ex_config []) ''site'' [''a.com''] None ex_world)
      = Inl (ValueError ''Challenge did not pass'')
   \<and> files (snd (make_cert (ex_env_refused (ex_config [])) (ex_config []) ''site'' [''a.com'']
        None ex_world)) ''/tmp/uuid1'' = Some ''CSR''
   \<and> fst (make_cert (ex_env_req_fails (ex_config [])) (ex_config []) ''site''
        [''a.com'', ''b.com''] None ex_world)
      = Inl (IOError ''OpenSSL Error: problems making Certificate Request'')
   \<and> files (snd (make_cert (ex_env_req_fails (ex_config [])) (ex_config []) ''site''
        [''a.com'', ''b.com''] None ex_world)) ''/tmp/uuid0'' = Some ''PRIVATE KEY''
   \<and> files (snd (make_cert (ex_env_req_fails (ex_config [])) (ex_config []) ''site''
        [''a.com'', ''b.com''] None ex_world)) ''/tmp/uuid2''
      = Some ''[req]\<newline>[SAN]\<newline>subjectAltName=DNS:a.com,DNS:b.com\<newline>''"
  by code_simp

subsection \<open>Config validation\<close>

text \<open>
  C7. For a config file that is there and parses: when it declares both \<^verbatim>\<open>ca\<close> and
  \<^verbatim>\<open>ca_directory\<close>, \<^verbatim>\<open>load_config\<close> and with it \<^verbatim>\<open>single_run\<close> raise the
  configuration error and leave the world as it was, so that no request has been made
  and nothing has been run; when it declares exactly one of the two, \<^verbatim>\<open>load_config\<close>
  returns the config, with the names and domains stripped.
\<close>

theorem both_ca_is_config_error:
  assumes "files w ''config/config.yml'' = Some f"
    and "yaml_safe_load env f = Inr config"
  shows "(ca config \<noteq> None \<and> ca_directory config \<noteq> None \<longrightarrow>
           load_config env w = (Inl (Exception
             ''The config should have either ca_directory or ca (deprecated) but not both.''), w)
           \<and> single_run env w = (Inl (Exception
             ''The config should have either ca_directory or ca (deprecated) but not both.''), w))
    \<and> ((ca config = None) \<noteq> (ca_directory config = None) \<longrightarrow>
           load_config env w = (Inr (config\<lparr>certs := map strip_cert (certs config)\<rparr>), w))"
  using assms
  by (auto simp: load_config_def single_run_def bind_def open_read_def ask_def raise_def
      return_def)

theorem both_ca_is_config_error_witness:
  "files ex_world ''config/config.yml'' = Some ''certs: []''
   \<and> yaml_safe_load (ex_env ex_both) ''certs: []'' = Inr ex_both
   \<and> ca ex_both \<noteq> None \<and> ca_directory ex_both \<noteq> None
   \<and> single_run (ex_env ex_both) ex_world = (Inl (Exception
        ''The config should have either ca_directory or ca (deprecated) but not both.''), ex_world)
   \<and> trace ex_world = []
   \<and> yaml_safe_load (ex_env ex_raw_config) ''certs: []'' = Inr ex_raw_config
   \<and> (ca ex_raw_config = None) \<noteq> (ca_directory ex_raw_config = None)
   \<and> load_config (ex_env ex_raw_config) ex_world
      = (Inr (ex_raw_config\<lparr>certs := map strip_cert (certs ex_raw_config)\<rparr>), ex_world)
   \<and> map strip_cert (certs ex_raw_config)
      = [\<lparr>name = ''new'', domains = [''n.com'']\<rparr>,
         \<lparr>name = ''gap'', domains = [''g.com'', ''www.g.com'']\<rparr>]"
proof -
  have f: "files ex_world ''config/config.yml'' = Some ''certs: []''"
    by (simp add: ex_world_def)
  have t: "trace ex_world = []"
    by (simp add: ex_world_def)
  have a: "yaml_safe_load (ex_env ex_both) ''certs: []'' = Inr ex_both"
    by (simp add: ex_env_def)
  have a': "ca ex_both \<noteq> None \<and> ca_directory ex_both \<noteq> None"
    by (simp add: ex_both_def ex_config_def)
  have b: "yaml_safe_load (ex_env ex_raw_config) ''certs: []'' = Inr ex_raw_config"
    by (simp add: ex_env_def)
  have b': "(ca ex_raw_config = None) \<noteq> (ca_directory ex_raw_config = None)"
    by (simp add: ex_raw_config_def ex_config_def)
  have s: "map strip_cert (certs ex_raw_config)
      = [\<lparr>name = ''new'', domains = [''n.com'']\<rparr>,
         \<lparr>name = ''gap'', domains = [''g.com'', ''www.g.com'']\<rparr>]"
    by code_simp
  note both = both_ca_is_config_error [OF f a, THEN conjunct1, THEN mp, OF a', THEN conjunct2]
    and one = both_ca_is_config_error [OF f b, THEN conjunct2, THEN mp, OF b']
  show ?thesis using f t a a' b b' s both one by simp
qed

subsection \<open>Daemon\<close>

lemma keeps_sleep_make_cert: "keeps is_sleep (make_cert env config nm doms link)"
  unfolding make_cert_def Let_def
  by (auto intro!: keeps_bind keeps_prims keeps_rancher_save_cert split: option.splits)

lemma keeps_sleep_make_certs: "keeps is_sleep (make_certs env config q)"
  by (induction q) (auto intro!: keeps_bind keeps_prims keeps_sleep_make_cert)

lemma keeps_sleep_check_certs: "keeps is_sleep (check_certs env config)"
  unfolding check_certs_def Let_def
  by (intro keeps_bind keeps_prims keeps_rancher_get_certs keeps_sleep_make_certs)
     (simp_all add: keeps_def)

lemma keeps_sleep_load_config: "keeps is_sleep (load_config env)"
  unfolding load_config_def
  by (auto intro!: keeps_bind keeps_prims)

lemma keeps_sleep_single_run: "keeps is_sleep (single_run env)"
  unfolding single_run_def
  by (intro keeps_bind keeps_prims keeps_sleep_load_config keeps_sleep_check_certs)

lemma daemon_pass_ok:
  "single_run env w = (Inr nb_certs, w1) \<Longrightarrow>
   daemon_pass env w = (Inr (), w1\<lparr>trace := trace w1 @
     [Statsd_event ''Rancher Auto Certs executed successfully''
        (str_int nb_certs @ '' certificate(s) created or renewed'') ''success'',
      Statsd_service_check ''rancher_auto_certs.status'' statsd_OK,
      Time_sleep 86400]\<rparr>)"
  by (simp add: daemon_pass_def bind_def try_except_def emit_def)

lemma daemon_pass_failed:
  "single_run env w = (Inl e, w1) \<Longrightarrow>
   daemon_pass env w = (Inr (), w1\<lparr>trace := trace w1 @
     [Statsd_event ''Rancher Auto Certs encountered an error''
        (''Please check container logs.\<newline>'' @ type_name e @ '': '' @ str_error e) ''error'',
      Statsd_service_check ''rancher_auto_certs.status'' statsd_CRITICAL,
      Time_sleep 86400]\<rparr>)"
  by (simp add: daemon_pass_def bind_def try_except_def emit_def)

lemma daemon_pass_returns: "fst (daemon_pass env w) = Inr ()"
proof -
  obtain r w1 where run: "single_run env w = (r, w1)" by (cases "single_run env w")
  then show ?thesis by (cases r) (simp_all add: daemon_pass_ok daemon_pass_failed)
qed

lemma daemon_pass_sleeps:
  "filter is_sleep (trace (snd (daemon_pass env w)))
     = filter is_sleep (trace w) @ [Time_sleep 86400]"
proof -
  obtain r w1 where run: "single_run env w = (r, w1)" by (cases "single_run env w")
  from keepsD [OF keeps_sleep_single_run run]
  have "filter is_sleep (trace w1) = filter is_sleep (trace w)" .
  then show ?thesis using run
    by (cases r) (simp_all add: daemon_pass_ok daemon_pass_failed)
qed

lemma daemon_loop_runs:
  "fst (daemon_loop n env w) = Inr ()
   \<and> filter is_sleep (trace (snd (daemon_loop n env w)))
       = filter is_sleep (trace w) @ replicate n (Time_sleep 86400)"
proof (induction n arbitrary: w)
  case 0
  then show ?case by (simp add: return_def)
next
  case (Suc n)
  obtain w1 where p: "daemon_pass env w = (Inr (), w1)"
    using daemon_pass_returns [of env w] by (cases "daemon_pass env w") simp
  then have "filter is_sleep (trace w1) = filter is_sleep (trace w) @ [Time_sleep 86400]"
    using daemon_pass_sleeps [of env w] by simp
  with Suc [of w1] p show ?case
    by (simp add: bind_def replicate_app_Cons_same)
qed

lemma keeps_monitoring_make_cert: "keeps is_monitoring (make_cert env config nm doms link)"
  unfolding make_cert_def Let_def
  by (auto intro!: keeps_bind keeps_prims keeps_rancher_save_cert split: option.splits)

lemma keeps_monitoring_make_certs: "keeps is_monitoring (make_certs env config q)"
  by (induction q) (auto intro!: keeps_bind keeps_prims keeps_monitoring_make_cert)

lemma keeps_monitoring_check_certs: "keeps is_monitoring (check_certs env config)"
  unfolding check_certs_def Let_def
  by (intro keeps_bind keeps_prims keeps_rancher_get_certs keeps_monitoring_make_certs)
     (simp_all add: keeps_def)

lemma keeps_monitoring_load_config: "keeps is_monitoring (load_config env)"
  unfolding load_config_def
  by (auto intro!: keeps_bind keeps_prims)

lemma keeps_monitoring_single_run: "keeps is_monitoring (single_run env)"
  unfolding single_run_def
  by (intro keeps_bind keeps_prims keeps_monitoring_load_config keeps_monitoring_check_certs)

lemma daemon_pass_monitoring:
  "filter is_monitoring (trace (snd (daemon_pass env w)))
     = filter is_monitoring (trace w) @ pass_report (fst (single_run env w))"
proof -
  obtain r w1 where run: "single_run env w = (r, w1)" by (cases "single_run env w")
  from keepsD [OF keeps_monitoring_single_run run]
  have "filter is_monitoring (trace w1) = filter is_monitoring (trace w)" .
  then show ?thesis using run
    by (cases r) (simp_all add: daemon_pass_ok daemon_pass_failed pass_report_def)
qed

lemma daemon_loop_Suc:
  "daemon_loop (Suc n) env w = daemon_loop n env (snd (daemon_pass env w))"
proof -
  obtain w1 where "daemon_pass env w = (Inr (), w1)"
    using daemon_pass_returns [of env w] by (cases "daemon_pass env w") simp
  then show ?thesis by (simp add: bind_def)
qed

lemma daemon_loop_monitoring:
  "filter is_monitoring (trace (snd (daemon_loop n env w)))
     = filter is_monitoring (trace w) @ concat (map pass_report (pass_outcomes n env w))"
proof (induction n arbitrary: w)
  case 0
  then show ?case by (simp add: return_def)
next
  case (Suc n)
  show ?case
    by (simp only: daemon_loop_Suc Suc daemon_pass_monitoring pass_outcomes.simps list.map
        concat.simps append_assoc)
qed

lemma daemon_unfold:
  assumes "py_int env (case environ env ''DOGSTATSD_PORT'' of None \<Rightarrow> ''8125'' | Some p \<Rightarrow> p)
      = Inr port"
  shows "daemon n env w = daemon_loop n env (w\<lparr>trace := trace w @
      [Datadog_initialize
         (case environ env ''DOGSTATSD_HOST'' of None \<Rightarrow> ''127.0.0.1'' | Some h \<Rightarrow> h) port]\<rparr>)"
  using assms by (simp add: daemon_def bind_def ask_def emit_def)

text \<open>
  C9. An iteration of the daemon's loop never raises. When the pass returns, the
  iteration adds the success event with the count, the OK service check and a sleep of
  86400 seconds; when the pass raises, it adds the error event with the class and the
  message of the exception, the CRITICAL service check and the same sleep. The loop does
  nothing but such iterations, one after the other, each in the world the one before has
  left: so it is still going after any number of them, the sleeps in the trace are then
  exactly one of 86400 seconds per iteration (the passes themselves never sleep), and
  what the monitoring has seen is, for each pass in order, the report of its outcome
  followed by the sleep. \<^verbatim>\<open>daemon()\<close> is that loop, entered once datadog is
  initialised. The statsd calls are datagrams sent and forgotten; they are taken not to
  raise.
\<close>

theorem daemon_survives_every_pass:
  "(single_run env w = (Inr nb_certs, w1) \<longrightarrow>
      daemon_pass env w = (Inr (), w1\<lparr>trace := trace w1 @
        [Statsd_event ''Rancher Auto Certs executed successfully''
           (str_int nb_certs @ '' certificate(s) created or renewed'') ''success'',
         Statsd_service_check ''rancher_auto_certs.status'' statsd_OK,
         Time_sleep 86400]\<rparr>))
   \<and> (single_run env w = (Inl e, w1) \<longrightarrow>
      daemon_pass env w = (Inr (), w1\<lparr>trace := trace w1 @
        [Statsd_event ''Rancher Auto Certs encountered an error''
           (''Please check container logs.\<newline>'' @ type_name e @ '': '' @ str_error e) ''error'',
         Statsd_service_check ''rancher_auto_certs.status'' statsd_CRITICAL,
         Time_sleep 86400]\<rparr>))
   \<and> fst (daemon_loop n env w) = Inr ()
   \<and> filter is_sleep (trace (snd (daemon_loop n env w)))
       = filter is_sleep (trace w) @ replicate n (Time_sleep 86400)
   \<and> daemon_loop 0 env w = (Inr (), w)
   \<and> daemon_loop (Suc n) env w = daemon_loop n env (snd (daemon_pass env w))
   \<and> filter is_monitoring (trace (snd (daemon_loop n env w)))
       = filter is_monitoring (trace w) @ concat (map pass_report (pass_outcomes n env w))
   \<and> length (pass_outcomes n env w) = n
   \<and> (py_int env (case environ env ''DOGSTATSD_PORT'' of None \<Rightarrow> ''8125'' | Some p \<Rightarrow> p)
         = Inr port \<longrightarrow>
       daemon n env w = daemon_loop n env (w\<lparr>trace := trace w @
         [Datadog_initialize
            (case environ env ''DOGSTATSD_HOST'' of None \<Rightarrow> ''127.0.0.1'' | Some h \<Rightarrow> h)
            port]\<rparr>))"
proof -
  have len: "length (pass_outcomes n env w) = n"
    by (induction n arbitrary: w) simp_all
  have zero: "daemon_loop 0 env w = (Inr (), w)"
    by (simp add: return_def)
  show ?thesis
    using daemon_pass_ok [of env w nb_certs w1] daemon_pass_failed [of env w e w1]
      daemon_loop_runs [of n env w] zero daemon_loop_Suc [of n env w]
      daemon_loop_monitoring [of n env w] len daemon_unfold [of env port n w]
    by blast
qed

theorem daemon_survives_every_pass_witness:
  "fst (single_run (ex_env (ex_config [ex_healthy])) ex_world) = Inr 0
   \<and> daemon_pass (ex_env (ex_config [ex_healthy])) ex_world
      = (Inr (), (snd (single_run (ex_env (ex_config [ex_healthy])) ex_world))
          \<lparr>trace := trace (snd (single_run (ex_env (ex_config [ex_healthy])) ex_world)) @
            [Statsd_event ''Rancher Auto Certs executed successfully''
               (str_int 0 @ '' certificate(s) created or renewed'') ''success'',
             Statsd_service_check ''rancher_auto_certs.status'' statsd_OK,
             Time_sleep 86400]\<rparr>)
   \<and> trace (snd (daemon_pass (ex_env (ex_config [ex_healthy])) ex_world))
      = [Requests_get ''http://rancher/v1/certificates'' (''ak'', ''sk''),
         Statsd_event ''Rancher Auto Certs executed successfully''
           ''0 certificate(s) created or renewed'' ''success'',
         Statsd_service_check ''rancher_auto_certs.status'' 0,
         Time_sleep 86400]
   \<and> fst (single_run (ex_env ex_with_broken) ex_world)
      = Inl (ValueError
          ''time data 2026-01-11T00:00:00Z does not match format %a %b %d %H:%M:%S %Z %Y'')
   \<and> daemon_pass (ex_env ex_with_broken) ex_world
      = (Inr (), (snd (single_run (ex_env ex_with_broken) ex_world))
          \<lparr>trace := trace (snd (single_run (ex_env ex_with_broken) ex_world)) @
            [Statsd_event ''Rancher Auto Certs encountered an error''
               (''Please check container logs.\<newline>'' @ ''ValueError'' @ '': '' @
                ''time data 2026-01-11T00:00:00Z does not match format %a %b %d %H:%M:%S %Z %Y'')
               ''error'',
             Statsd_service_check ''rancher_auto_certs.status'' statsd_CRITICAL,
             Time_sleep 86400]\<rparr>)
   \<and> fst (daemon_loop 3 (ex_env ex_with_broken) ex_world) = Inr ()
   \<and> filter is_sleep (trace (snd (daemon_loop 3 (ex_env ex_with_broken) ex_world)))
      = [Time_sleep 86400, Time_sleep 86400, Time_sleep 86400]
   \<and> daemon_loop (Suc 1) (ex_env ex_with_broken) ex_world
      = daemon_loop 1 (ex_env ex_with_broken) (snd (daemon_pass (ex_env ex_with_broken) ex_world))
   \<and> filter is_monitoring (trace (snd (daemon_loop 2 (ex_env ex_with_broken) ex_world)))
      = [Statsd_event ''Rancher Auto Certs encountered an error''
           ''Please check container logs.\<newline>ValueError: time data 2026-01-11T00:00:00Z does not match format %a %b %d %H:%M:%S %Z %Y''
           ''error'',
         Statsd_service_check ''rancher_auto_certs.status'' 2, Time_sleep 86400,
         Statsd_event ''Rancher Auto Certs encountered an error''
           ''Please check container logs.\<newline>ValueError: time data 2026-01-11T00:00:00Z does not match format %a %b %d %H:%M:%S %Z %Y''
           ''error'',
         Statsd_service_check ''rancher_auto_certs.status'' 2, Time_sleep 86400]
   \<and> py_int (ex_env (ex_config [ex_healthy]))
        (case environ (ex_env (ex_config [ex_healthy])) ''DOGSTATSD_PORT'' of
           None \<Rightarrow> ''8125'' | Some p \<Rightarrow> p) = Inr 8125
   \<and> daemon 1 (ex_env (ex_config [ex_healthy])) ex_world
      = daemon_loop 1 (ex_env (ex_config [ex_healthy]))
          (ex_world\<lparr>trace := trace ex_world @ [Datadog_initialize ''127.0.0.1'' 8125]\<rparr>)
   \<and> trace (snd (daemon 1 (ex_env (ex_config [ex_healthy])) ex_world))
      = [Datadog_initialize ''127.0.0.1'' 8125,
         Requests_get ''http://rancher/v1/certificates'' (''ak'', ''sk''),
         Statsd_event ''Rancher Auto Certs executed successfully''
           ''0 certificate(s) created or renewed'' ''success'',
         Statsd_service_check ''rancher_auto_certs.status'' 0,
         Time_sleep 86400]"
proof -
  let ?ok = "ex_env (ex_config [ex_healthy])"
  let ?bad = "ex_env ex_with_broken"
  let ?e = "ValueError
          ''time data 2026-01-11T00:00:00Z does not match format %a %b %d %H:%M:%S %Z %Y''"
  have a: "fst (single_run ?ok ex_world) = Inr 0" by code_simp
  then have a': "single_run ?ok ex_world = (Inr 0, snd (single_run ?ok ex_world))"
    by (simp add: prod_eq_iff)
  have b: "fst (single_run ?bad ex_world) = Inl ?e" by code_simp
  then have b': "single_run ?bad ex_world = (Inl ?e, snd (single_run ?bad ex_world))"
    by (simp add: prod_eq_iff)
  have t: "trace (snd (daemon_pass ?ok ex_world))
      = [Requests_get ''http://rancher/v1/certificates'' (''ak'', ''sk''),
         Statsd_event ''Rancher Auto Certs executed successfully''
           ''0 certificate(s) created or renewed'' ''success'',
         Statsd_service_check ''rancher_auto_certs.status'' 0,
         Time_sleep 86400]"
    by code_simp
  have t0: "trace ex_world = []" by (simp add: ex_world_def)
  note ok = daemon_survives_every_pass [of ?ok ex_world 0 "snd (single_run ?ok ex_world)",
      THEN conjunct1, THEN mp, OF a']
  note bad = daemon_survives_every_pass [of ?bad ex_world _ "snd (single_run ?bad ex_world)" ?e,
      THEN conjunct2, THEN conjunct1, THEN mp, OF b']
  note loop = daemon_survives_every_pass [of ?bad ex_world _ _ _ 3, THEN conjunct2,
      THEN conjunct2]
  have l1: "fst (daemon_loop 3 ?bad ex_world) = Inr ()" using loop by blast
  have l2: "filter is_sleep (trace (snd (daemon_loop 3 ?bad ex_world)))
      = [Time_sleep 86400, Time_sleep 86400, Time_sleep 86400]"
    using loop t0 by (simp add: numeral_3_eq_3)
  have bad': "daemon_pass ?bad ex_world
      = (Inr (), (snd (single_run ?bad ex_world))
          \<lparr>trace := trace (snd (single_run ?bad ex_world)) @
            [Statsd_event ''Rancher Auto Certs encountered an error''
               (''Please check container logs.\<newline>'' @ ''ValueError'' @ '': '' @
                ''time data 2026-01-11T00:00:00Z does not match format %a %b %d %H:%M:%S %Z %Y'')
               ''error'',
             Statsd_service_check ''rancher_auto_certs.status'' statsd_CRITICAL,
             Time_sleep 86400]\<rparr>)"
    using bad by simp
  note step = daemon_survives_every_pass [of ?bad ex_world _ _ _ 1, THEN conjunct2,
      THEN conjunct2, THEN conjunct2, THEN conjunct2, THEN conjunct2, THEN conjunct1]
  note mon = daemon_survives_every_pass [of ?bad ex_world _ _ _ 2, THEN conjunct2,
      THEN conjunct2, THEN conjunct2, THEN conjunct2, THEN conjunct2, THEN conjunct2,
      THEN conjunct1]
  have reports: "concat (map pass_report (pass_outcomes 2 ?bad ex_world))
      = [Statsd_event ''Rancher Auto Certs encountered an error''
           ''Please check container logs.\<newline>ValueError: time data 2026-01-11T00:00:00Z does not match format %a %b %d %H:%M:%S %Z %Y''
           ''error'',
         Statsd_service_check ''rancher_auto_certs.status'' 2, Time_sleep 86400,
         Statsd_event ''Rancher Auto Certs encountered an error''
           ''Please check container logs.\<newline>ValueError: time data 2026-01-11T00:00:00Z does not match format %a %b %d %H:%M:%S %Z %Y''
           ''error'',
         Statsd_service_check ''rancher_auto_certs.status'' 2, Time_sleep 86400]"
    by code_simp
  have m: "filter is_monitoring (trace (snd (daemon_loop 2 ?bad ex_world)))
      = concat (map pass_report (pass_outcomes 2 ?bad ex_world))"
    using mon t0 by simp
  have p: "py_int ?ok (case environ ?ok ''DOGSTATSD_PORT'' of None \<Rightarrow> ''8125'' | Some p \<Rightarrow> p)
      = Inr 8125"
    by code_simp
  have host: "(case environ ?ok ''DOGSTATSD_HOST'' of None \<Rightarrow> ''127.0.0.1'' | Some h \<Rightarrow> h)
      = ''127.0.0.1''"
    by code_simp
  note d = daemon_survives_every_pass [of ?ok ex_world _ _ _ 1 8125, THEN conjunct2,
      THEN conjunct2, THEN conjunct2, THEN conjunct2, THEN conjunct2, THEN conjunct2,
      THEN conjunct2, THEN conjunct2, THEN mp, OF p]
  have d': "daemon 1 ?ok ex_world
      = daemon_loop 1 ?ok (ex_world\<lparr>trace := trace ex_world @
          [Datadog_initialize ''127.0.0.1'' 8125]\<rparr>)"
    using d host by simp
  have dt: "trace (snd (daemon 1 ?ok ex_world))
      = [Datadog_initialize ''127.0.0.1'' 8125,
         Requests_get ''http://rancher/v1/certificates'' (''ak'', ''sk''),
         Statsd_event ''Rancher Auto Certs executed successfully''
           ''0 certificate(s) created or renewed'' ''success'',
         Statsd_service_check ''rancher_auto_certs.status'' 0,
         Time_sleep 86400]"
    by code_simp
  show ?thesis
    using a ok t b bad' l1 l2 step m [unfolded reports] p d' dt by blast
qed

end
